theory Spec2Isabelle
  imports Main "HOL-Library.AList" "HOL-Library.Word" "HOL-Library.Char_ord"
    "HOL-Library.List_Lexorder"
begin

section \<open>Values, errors, effects\<close>

text \<open>
  A Go \<^verbatim>\<open>interface{}\<close> value as the configuration tree and the key/value payloads hold
  it. \<open>AJSON\<close> is a \<^verbatim>\<open>utils.JSON\<close> (\<^verbatim>\<open>map[string]any\<close>), kept as an association list
  read with \<open>map_of\<close>; \<open>AArray\<close> is a \<^verbatim>\<open>[]interface{}\<close>; \<open>AInt\<close> is a Go \<^verbatim>\<open>int\<close>;
  \<open>AFloat64\<close> is a \<^verbatim>\<open>float64\<close> whose value is an integer from \<open>- 2 ^ 53\<close> up to
  \<open>2 ^ 53 - 1\<close> (read with \<open>sint\<close>; each of them is a \<^verbatim>\<open>float64\<close>, other \<^verbatim>\<open>float64\<close>
  values are not modelled); \<open>AChan\<close> stands for a Go value with no JSON encoding.
\<close>

datatype any = ANil | ABool bool | AString string | AInt int | AFloat64 "54 word" | AChan
  | AJSON "(string \<times> any) list" | AArray "any list"

type_synonym JSON = "(string \<times> any) list"
type_synonym bytes = string

text \<open>
  Go \<^verbatim>\<open>error\<close> values: \<open>Errorf\<close> is what \<^verbatim>\<open>fmt.Errorf\<close> (directly or through the logger)
  builds from a format and its arguments, \<open>RedisNil\<close> is \<^verbatim>\<open>redis.Nil\<close>, \<open>LibError\<close> any
  other error of a library, \<open>Wrap\<close> an error wrapping another.
\<close>

datatype error = Errorf string "string list" | RedisNil | LibError string | Wrap string error

fun errors_Is :: "error \<Rightarrow> error \<Rightarrow> bool" where
  "errors_Is (Wrap m e) t = (Wrap m e = t \<or> errors_Is e t)"
| "errors_Is e t = (e = t)"

text \<open>
  How a call ends: it returns, the logger's fatal path ends the process, or the Go
  runtime panics (a nil pointer is dereferenced).
\<close>

datatype 'a outcome = Returned 'a | Terminated | Panicked

record RingOptions =
  opt_Addrs :: "(string \<times> string) list"
  opt_DB :: int
  opt_Username :: string
  opt_Password :: string

datatype level = LevelInfo | LevelWarn | LevelError | LevelPanic | LevelFatal

datatype arg = ArgS string | ArgI int | ArgE error | ArgJ "JSON option" | ArgB bytes

text \<open>
  The effects a call has on its collaborators, in order: a message handed to the logger,
  a read of the configuration registry (a section, a handle's record, a field of the
  record), a client built, a command sent through the client.
\<close>

datatype event =
    Log level string "arg list"
  | ReadSection string
  | ReadRecord string
  | ReadField string
  | NewRing RingOptions
  | CmdPing
  | CmdSet string bytes int
  | CmdGet string
  | CmdDel string
  | CmdClose

subsection \<open>Type assertions\<close>

text \<open>
  \<^verbatim>\<open>x, ok := m[k].(T)\<close>: a missing key gives the nil interface, on which every assertion
  fails; a failed assertion gives the zero value of \<^verbatim>\<open>T\<close> and \<^verbatim>\<open>ok = false\<close>.
\<close>

definition as_JSON :: "any option \<Rightarrow> JSON option" where
  "as_JSON v = (case v of Some (AJSON d) \<Rightarrow> Some d | _ \<Rightarrow> None)"

definition as_string :: "any option \<Rightarrow> string \<times> bool" where
  "as_string v = (case v of Some (AString s) \<Rightarrow> (s, True) | _ \<Rightarrow> ('''', False))"

definition as_bool :: "any option \<Rightarrow> bool \<times> bool" where
  "as_bool v = (case v of Some (ABool b) \<Rightarrow> (b, True) | _ \<Rightarrow> (False, False))"

subsection \<open>The logger\<close>

text \<open>
  Modelled from the spec: the logging subsystem (\<^verbatim>\<open>dxlib/v3/log\<close>) is not among the source
  files. The spec's logger "accepts leveled messages (info/warn/error) and a fatal level
  that terminates the process", is "also used to construct error values carrying a
  formatted message", and the mandatory-missing path that the code takes through
  \<^verbatim>\<open>PanicAndCreateErrorf\<close> is "fatal-class: logs and aborts process". So the info, warn and
  error calls hand over a message and return (the \<^verbatim>\<open>...AndCreateErrorf\<close> ones return the
  error they build), and \<^verbatim>\<open>PanicAndCreateErrorf\<close> and \<^verbatim>\<open>Fatalf\<close> hand over a message and end
  the process.
\<close>

definition Log_Info :: "string \<Rightarrow> event list" where
  "Log_Info msg = [Log LevelInfo msg []]"

definition Log_Infof :: "string \<Rightarrow> arg list \<Rightarrow> event list" where
  "Log_Infof f a = [Log LevelInfo f a]"

definition Log_Errorf :: "string \<Rightarrow> arg list \<Rightarrow> event list" where
  "Log_Errorf f a = [Log LevelError f a]"

definition Log_Fatalf :: "string \<Rightarrow> arg list \<Rightarrow> event list \<times> unit outcome" where
  "Log_Fatalf f a = ([Log LevelFatal f a], Terminated)"

definition Log_WarnAndCreateErrorf :: "string \<Rightarrow> string list \<Rightarrow> event list \<times> error outcome" where
  "Log_WarnAndCreateErrorf f a = ([Log LevelWarn f (map ArgS a)], Returned (Errorf f a))"

definition Log_ErrorAndCreateErrorf :: "string \<Rightarrow> string list \<Rightarrow> event list \<times> error outcome" where
  "Log_ErrorAndCreateErrorf f a = ([Log LevelError f (map ArgS a)], Returned (Errorf f a))"

definition Log_PanicAndCreateErrorf :: "string \<Rightarrow> string list \<Rightarrow> event list \<times> error outcome" where
  "Log_PanicAndCreateErrorf f a = ([Log LevelPanic f (map ArgS a)], Terminated)"

text \<open>
  \<^verbatim>\<open>err := log.Log.XAndCreateErrorf(...); return err\<close> in a method of the handle \<open>r\<close>, after
  the effects \<open>t\<close>: the error is returned if the logger call returns at all.
\<close>

definition return_created ::
  "'h \<Rightarrow> event list \<Rightarrow> event list \<times> error outcome \<Rightarrow> 'h \<times> event list \<times> error option outcome" where
  "return_created r t c =
     (case c of
        (t', Returned err) \<Rightarrow> (r, t @ t', Returned (Some err))
      | (t', Terminated) \<Rightarrow> (r, t @ t', Terminated)
      | (t', Panicked) \<Rightarrow> (r, t @ t', Panicked))"

section \<open>Handles and their environment\<close>

text \<open>
  The fields the handles of both families share (the struct literal of
  \<^verbatim>\<open>NewDatabase\<close> sets exactly these; the rest of \<^verbatim>\<open>DXDatabase\<close> is not among the source
  files), and the Redis handle. \<^verbatim>\<open>Owner\<close> (the back pointer to the manager) and \<^verbatim>\<open>Context\<close>
  (always \<^verbatim>\<open>core.RootContext\<close>) are left out: no method branches on them. \<open>Connection\<close> is
  the \<^verbatim>\<open>*redis.Ring\<close>: \<open>None\<close> is the nil pointer, \<open>Some opts\<close> the ring built from \<open>opts\<close>.
\<close>

record Handle =
  NameId :: string
  IsConfigured :: bool
  IsConnectAtStart :: bool
  MustConnected :: bool
  Connected :: bool

record DXRedis = Handle +
  Address :: string
  UserName :: string
  HasUserName :: bool
  Password :: string
  HasPassword :: bool
  DatabaseIndex :: int
  Connection :: "RingOptions option"

type_synonym DXDatabase = Handle

text \<open>
  A configuration of the registry: \<^verbatim>\<open>Data\<close> is a pointer to the parsed tree (\<open>None\<close> is
  nil), as \<^verbatim>\<open>*configuration.Data\<close> in both managers shows.
\<close>

record DXConfiguration =
  Data :: "JSON option"

text \<open>
  What the methods read from outside the handle: the configuration registry
  (\<^verbatim>\<open>Manager.Configurations\<close>), \<^verbatim>\<open>json2.GetInt\<close> (a helper that is not among the source
  files, taken as a parameter with its Go signature: the integer and the error), and
  the answer of the server to the ping of a freshly built ring.
\<close>

record env =
  Configurations :: "string \<Rightarrow> DXConfiguration option"
  GetInt :: "JSON \<Rightarrow> string \<Rightarrow> int \<times> error option"
  PingOf :: "RingOptions \<Rightarrow> error option"

subsection \<open>The client library and the JSON codec\<close>

text \<open>
  The commands of the underlying client (\<^verbatim>\<open>go-redis\<close>, outside the repository) against a
  key/value store. \<open>io\<close> is the library error the command meets on its way, if any; a \<^verbatim>\<open>GET\<close>
  of a key the store does not hold answers \<^verbatim>\<open>redis.Nil\<close>. The store has no clock: a key
  stays until it is deleted, so the expiration a \<^verbatim>\<open>SET\<close> carries is recorded in the
  command and plays no part.
\<close>

type_synonym server = "string \<Rightarrow> bytes option"

definition client_Ping :: "error option \<Rightarrow> error option" where
  "client_Ping io = io"

definition client_Close :: "error option \<Rightarrow> error option" where
  "client_Close io = io"

definition client_Set ::
  "error option \<Rightarrow> server \<Rightarrow> string \<Rightarrow> bytes \<Rightarrow> error option \<times> server" where
  "client_Set io srv key b =
     (case io of Some err \<Rightarrow> (Some err, srv) | None \<Rightarrow> (None, srv(key \<mapsto> b)))"

definition client_Get :: "error option \<Rightarrow> server \<Rightarrow> string \<Rightarrow> error + bytes" where
  "client_Get io srv key =
     (case io of
        Some err \<Rightarrow> Inl err
      | None \<Rightarrow> (case srv key of None \<Rightarrow> Inl RedisNil | Some b \<Rightarrow> Inr b))"

definition client_Del ::
  "error option \<Rightarrow> server \<Rightarrow> string \<Rightarrow> error option \<times> server" where
  "client_Del io srv key =
     (case io of Some err \<Rightarrow> (Some err, srv) | None \<Rightarrow> (None, srv(key := None)))"

text \<open>
  \<^verbatim>\<open>json.Marshal\<close> and \<^verbatim>\<open>json.Unmarshal\<close> (the Go standard library) at the type the handle
  uses them: a \<^verbatim>\<open>utils.JSON\<close> that may be nil (\<open>None\<close>), to bytes and back, each with its
  error. They are parameters of the data operations.
\<close>

record codec =
  Marshal :: "JSON option \<Rightarrow> error + bytes"
  Unmarshal :: "bytes \<Rightarrow> error + JSON option"

section \<open>The Redis handle\<close>

definition ApplyFromConfiguration ::
  "env \<Rightarrow> DXRedis \<Rightarrow> DXRedis \<times> event list \<times> error option outcome" where
  "ApplyFromConfiguration e r =
    (if \<not> IsConfigured r then
       (let t0 = Log_Infof ''Configuring to Redis %s... start'' [ArgS (NameId r)]
                   @ [ReadSection ''redis'']
        in case Configurations e ''redis'' of
          None \<Rightarrow>
            return_created r t0
              (Log_PanicAndCreateErrorf ''DXRedis/ApplyFromConfiguration/1''
                 [''Redises configuration not found''])
        | Some configurationData \<Rightarrow>
           (case Data configurationData of
              None \<Rightarrow> (r, t0, Panicked)
            | Some m \<Rightarrow>
               (let t1 = t0 @ [ReadRecord (NameId r)]
                in case as_JSON (map_of m (NameId r)) of
                  None \<Rightarrow>
                    (if MustConnected r then
                       return_created r t1
                         (Log_PanicAndCreateErrorf ''Redis %s configuration not found'' [NameId r])
                     else
                       return_created r t1
                         (Log_WarnAndCreateErrorf
                            ''Manager is unusable, Redis %s configuration not found'' [NameId r]))
                | Some redisConfiguration \<Rightarrow>
                   (let (address, ok) = as_string (map_of redisConfiguration ''address'');
                        r1 = r\<lparr>Address := address\<rparr>;
                        t2 = t1 @ [ReadField ''address'']
                    in if \<not> ok then
                         (if MustConnected r1 then
                            return_created r1 t2
                              (Log_PanicAndCreateErrorf
                                 ''Mandatory address field in Redis %s configuration not exist''
                                 [NameId r1])
                          else
                            return_created r1 t2
                              (Log_WarnAndCreateErrorf
                                 ''configuration is unusable, mandatory address field in Redis %s configuration not exist''
                                 [NameId r1]))
                       else
                         (let (userName, hasUserName) =
                                as_string (map_of redisConfiguration ''user_name'');
                              (password, hasPassword) =
                                as_string (map_of redisConfiguration ''password'');
                              (databaseIndex, err) = GetInt e redisConfiguration ''database_index'';
                              r2 = r1\<lparr>UserName := userName, HasUserName := hasUserName,
                                      Password := password, HasPassword := hasPassword,
                                      DatabaseIndex := databaseIndex\<rparr>;
                              t3 = t2 @ [ReadField ''user_name'', ReadField ''password'',
                                         ReadField ''database_index'']
                          in case err of
                            Some x \<Rightarrow>
                              (if MustConnected r2 then
                                 return_created r2 t3
                                   (Log_PanicAndCreateErrorf
                                      ''Mandatory database_index field in Redis %s configuration not exist, check configuration and make sure it was integer not a string''
                                      [NameId r2])
                               else
                                 return_created r2 t3
                                   (Log_WarnAndCreateErrorf
                                      ''configuration is unusable, mandatory address field in Redis %s configuration not exist''
                                      [NameId r2]))
                          | None \<Rightarrow>
                              (r2\<lparr>IsConfigured := True\<rparr>,
                               t3 @ Log_Infof ''Configuring to Redis %s... done'' [ArgS (NameId r2)],
                               Returned None))))))
     else (r, [], Returned None))"

definition Connect ::
  "env \<Rightarrow> DXRedis \<Rightarrow> DXRedis \<times> event list \<times> error option outcome" where
  "Connect e r =
    (if \<not> Connected r then
       (case ApplyFromConfiguration e r of
          (r1, t1, Returned (Some err)) \<Rightarrow>
            (r1,
             t1 @ Log_Errorf ''Cannot configure to Redis %s to connect (%s)''
                    [ArgS (NameId r1), ArgE err],
             Returned (Some err))
        | (r1, t1, Terminated) \<Rightarrow> (r1, t1, Terminated)
        | (r1, t1, Panicked) \<Rightarrow> (r1, t1, Panicked)
        | (r1, t1, Returned None) \<Rightarrow>
           (let a = [ArgS (NameId r1), ArgS (Address r1), ArgI (DatabaseIndex r1)];
                t2 = t1 @ Log_Infof ''Connecting to Redis %s at %s/%d... start'' a;
                o0 = \<lparr>opt_Addrs = [(''shard1'', Address r1)], opt_DB = DatabaseIndex r1,
                      opt_Username = '''', opt_Password = ''''\<rparr>;
                o1 = (if HasUserName r1 then o0\<lparr>opt_Username := UserName r1\<rparr> else o0);
                redisRingOptions = (if HasPassword r1 then o1\<lparr>opt_Password := Password r1\<rparr> else o1);
                t3 = t2 @ [NewRing redisRingOptions, CmdPing]
            in case PingOf e redisRingOptions of
              Some err \<Rightarrow>
                (if MustConnected r1 then
                   (case Log_Fatalf ''Cannot connect to Redis %s at %s/%d (%s)'' (a @ [ArgE err]) of
                      (t4, Returned u) \<Rightarrow> (r1, t3 @ t4, Returned None)
                    | (t4, Terminated) \<Rightarrow> (r1, t3 @ t4, Terminated)
                    | (t4, Panicked) \<Rightarrow> (r1, t3 @ t4, Panicked))
                 else
                   (r1,
                    t3 @ Log_Errorf ''Cannot connect to Redis %s at %s/%d (%s)'' (a @ [ArgE err]),
                    Returned (Some err)))
            | None \<Rightarrow>
                (r1\<lparr>Connection := Some redisRingOptions, Connected := True\<rparr>,
                 t3 @ Log_Infof ''Connecting to Redis %s at %s/%d... done CONNECTED'' a,
                 Returned None)))
     else (r, [], Returned None))"

definition Disconnect ::
  "error option \<Rightarrow> DXRedis \<Rightarrow> DXRedis \<times> event list \<times> error option outcome" where
  "Disconnect io r =
    (if Connected r then
       (let a = [ArgS (NameId r), ArgS (Address r), ArgI (DatabaseIndex r)];
            t0 = Log_Infof ''Disconnecting to Redis %s at %s/%d... start'' a
        in case Connection r of
          None \<Rightarrow> (r, t0, Panicked)
        | Some c \<Rightarrow>
           (case client_Close io of
              Some err \<Rightarrow>
                (r,
                 t0 @ [CmdClose]
                    @ Log_Errorf ''Disconnecting to Redis %s at %s/%d error (%s)'' (a @ [ArgE err]),
                 Returned (Some err))
            | None \<Rightarrow>
                (r\<lparr>Connection := None, Connected := False\<rparr>,
                 t0 @ [CmdClose]
                    @ Log_Infof ''Disconnecting to Redis %s at %s/%d... done DISCONNECTED'' a,
                 Returned None)))
     else (r, [], Returned None))"

subsection \<open>Data operations\<close>

definition Ping :: "error option \<Rightarrow> DXRedis \<Rightarrow> event list \<times> error option outcome" where
  "Ping io r =
    (case Connection r of
       None \<Rightarrow> ([], Panicked)
     | Some c \<Rightarrow>
        (case client_Ping io of
           Some err \<Rightarrow> ([CmdPing], Returned (Some err))
         | None \<Rightarrow> ([CmdPing], Returned None)))"

definition Set ::
  "codec \<Rightarrow> error option \<Rightarrow> server \<Rightarrow> DXRedis \<Rightarrow> string \<Rightarrow> JSON option \<Rightarrow> int
     \<Rightarrow> server \<times> event list \<times> error option outcome" where
  "Set cd io srv r key val expirationDuration =
    (case Marshal cd val of
       Inl err \<Rightarrow>
         (srv,
          Log_Errorf ''Cannot save to Redis %s k/v (%v) %s/%v''
            [ArgS (NameId r), ArgE err, ArgS key, ArgJ val],
          Returned (Some err))
     | Inr valueAsBytes \<Rightarrow>
        (case Connection r of
           None \<Rightarrow> (srv, [], Panicked)
         | Some c \<Rightarrow>
            (case client_Set io srv key valueAsBytes of
               (Some err, srv') \<Rightarrow>
                 (srv',
                  [CmdSet key valueAsBytes expirationDuration]
                    @ Log_Errorf ''Cannot save to Redis %s k/v (%v) %s/%v''
                        [ArgS (NameId r), ArgE err, ArgS key, ArgJ val],
                  Returned (Some err))
             | (None, srv') \<Rightarrow>
                 (srv', [CmdSet key valueAsBytes expirationDuration], Returned None))))"

definition Get ::
  "codec \<Rightarrow> error option \<Rightarrow> server \<Rightarrow> DXRedis \<Rightarrow> string
     \<Rightarrow> event list \<times> (JSON option \<times> error option) outcome" where
  "Get cd io srv r key =
    (case Connection r of
       None \<Rightarrow> ([], Panicked)
     | Some c \<Rightarrow>
        (case client_Get io srv key of
           Inl err \<Rightarrow>
             (if errors_Is err RedisNil then ([CmdGet key], Returned (None, None))
              else
                ([CmdGet key]
                   @ Log_Errorf ''Cannot get to Redis %s k/v (%s) %s''
                       [ArgS (NameId r), ArgE err, ArgS key],
                 Returned (None, Some err)))
         | Inr valueAsBytes \<Rightarrow>
            (case Unmarshal cd valueAsBytes of
               Inl err \<Rightarrow>
                 ([CmdGet key]
                    @ Log_Errorf ''Cannot unmarshall from bytes in Redis %s k/v (%s) %s/%v''
                        [ArgS (NameId r), ArgE err, ArgS key, ArgB valueAsBytes],
                  Returned (None, Some err))
             | Inr val \<Rightarrow> ([CmdGet key], Returned (val, None)))))"

definition MustGet ::
  "codec \<Rightarrow> error option \<Rightarrow> server \<Rightarrow> DXRedis \<Rightarrow> string
     \<Rightarrow> event list \<times> (JSON option \<times> error option) outcome" where
  "MustGet cd io srv r key =
    (case Connection r of
       None \<Rightarrow> ([], Panicked)
     | Some c \<Rightarrow>
        (case client_Get io srv key of
           Inl err \<Rightarrow>
             (if errors_Is err RedisNil then
                ([CmdGet key]
                   @ Log_Errorf ''Cannot find keyin Redis %s (%s) %s''
                       [ArgS (NameId r), ArgE err, ArgS key],
                 Returned (None, Some err))
              else
                ([CmdGet key]
                   @ Log_Errorf ''Cannot get k/v to Redis %s k/v (%s) %s''
                       [ArgS (NameId r), ArgE err, ArgS key],
                 Returned (None, Some err)))
         | Inr valueAsBytes \<Rightarrow>
            (case Unmarshal cd valueAsBytes of
               Inl err \<Rightarrow>
                 ([CmdGet key]
                    @ Log_Errorf ''Cannot unmarshall from bytes in Redis %s k/v (%s) %s/%v''
                        [ArgS (NameId r), ArgE err, ArgS key, ArgB valueAsBytes],
                  Returned (None, Some err))
             | Inr val \<Rightarrow> ([CmdGet key], Returned (val, None)))))"

definition Delete ::
  "error option \<Rightarrow> server \<Rightarrow> DXRedis \<Rightarrow> string \<Rightarrow> server \<times> event list \<times> error option outcome" where
  "Delete io srv r key =
    (case Connection r of
       None \<Rightarrow> (srv, [], Panicked)
     | Some c \<Rightarrow>
        (case client_Del io srv key of
           (Some err, srv') \<Rightarrow>
             (srv',
              [CmdDel key]
                @ Log_Errorf ''Error in deleting key Redis %s k/v (%v) %s''
                    [ArgS (NameId r), ArgE err, ArgS key],
              Returned (Some err))
         | (None, srv') \<Rightarrow> (srv', [CmdDel key], Returned None)))"

section \<open>The managers\<close>

text \<open>
  A manager's registry (\<^verbatim>\<open>map[string]*DXRedis\<close>, \<^verbatim>\<open>map[string]*DXDatabase\<close>) is an
  association list: \<^verbatim>\<open>m[k] = v\<close> is \<open>AList.update\<close>, and \<^verbatim>\<open>range\<close> visits the entries in
  the order of the list, which stands for the order Go happens to choose. The map holds
  pointers, so what a method does to a handle is written back under its key.
\<close>

type_synonym DXRedisManager = "(string \<times> DXRedis) list"
type_synonym DXDatabaseManager = "(string \<times> DXDatabase) list"

definition NewRedis ::
  "DXRedisManager \<Rightarrow> string \<Rightarrow> bool \<Rightarrow> bool \<Rightarrow> DXRedis \<times> DXRedisManager" where
  "NewRedis rs nameId isConnectAtStart mustConnected =
     (let r = \<lparr>NameId = nameId, IsConfigured = False, IsConnectAtStart = isConnectAtStart,
               MustConnected = mustConnected, Connected = False,
               Address = '''', UserName = '''', HasUserName = False,
               Password = '''', HasPassword = False, DatabaseIndex = 0, Connection = None\<rparr>
      in (r, AList.update nameId r rs))"

fun LoadFromConfiguration_loop ::
  "env \<Rightarrow> JSON \<Rightarrow> DXRedisManager \<Rightarrow> DXRedisManager \<times> event list \<times> error option outcome" where
  "LoadFromConfiguration_loop e [] rs = (rs, [], Returned None)"
| "LoadFromConfiguration_loop e ((k, v) # kvs) rs =
     (case as_JSON (Some v) of
        None \<Rightarrow> return_created rs [] (Log_ErrorAndCreateErrorf ''Cannot read %s as JSON'' [k])
      | Some d \<Rightarrow>
         (let (b1, ok1) = as_bool (map_of d ''is_connect_at_start'');
              isConnectAtStart = (if \<not> ok1 then False else b1);
              (b2, ok2) = as_bool (map_of d ''must_connected'');
              mustConnected = (if \<not> ok2 then False else b2);
              (redisObject, rs1) = NewRedis rs k isConnectAtStart mustConnected
          in case ApplyFromConfiguration e redisObject of
               (r', t, Returned None) \<Rightarrow>
                 (case LoadFromConfiguration_loop e kvs (AList.update k r' rs1) of
                    (rs2, t2, res) \<Rightarrow> (rs2, t @ t2, res))
             | (r', t, Returned (Some err)) \<Rightarrow> (AList.update k r' rs1, t, Returned (Some err))
             | (r', t, Terminated) \<Rightarrow> (AList.update k r' rs1, t, Terminated)
             | (r', t, Panicked) \<Rightarrow> (AList.update k r' rs1, t, Panicked)))"

definition LoadFromConfiguration ::
  "env \<Rightarrow> string \<Rightarrow> DXRedisManager \<Rightarrow> DXRedisManager \<times> event list \<times> error option outcome" where
  "LoadFromConfiguration e configurationNameId rs =
     (case Configurations e configurationNameId of
        None \<Rightarrow>
          (rs, [ReadSection configurationNameId],
           Returned (Some (Errorf ''CONFIGURATION_NOT_FOUND:%s'' [configurationNameId])))
      | Some configuration \<Rightarrow>
         (case Data configuration of
            None \<Rightarrow> (rs, [ReadSection configurationNameId], Panicked)
          | Some d \<Rightarrow>
             (case LoadFromConfiguration_loop e d rs of
                (rs', t, res) \<Rightarrow> (rs', ReadSection configurationNameId # t, res))))"

fun ConnectAllAtStart_loop ::
  "env \<Rightarrow> DXRedisManager \<Rightarrow> DXRedisManager \<times> event list \<times> error option outcome" where
  "ConnectAllAtStart_loop e [] = ([], [], Returned None)"
| "ConnectAllAtStart_loop e ((k, v) # rest) =
     (if IsConnectAtStart v then
        (case Connect e v of
           (v', t, Returned None) \<Rightarrow>
             (case ConnectAllAtStart_loop e rest of
                (rest', t', res) \<Rightarrow> ((k, v') # rest', t @ t', res))
         | (v', t, Returned (Some err)) \<Rightarrow> ((k, v') # rest, t, Returned (Some err))
         | (v', t, Terminated) \<Rightarrow> ((k, v') # rest, t, Terminated)
         | (v', t, Panicked) \<Rightarrow> ((k, v') # rest, t, Panicked))
      else
        (case ConnectAllAtStart_loop e rest of
           (rest', t', res) \<Rightarrow> ((k, v) # rest', t', res)))"

definition ConnectAllAtStart ::
  "env \<Rightarrow> DXRedisManager \<Rightarrow> DXRedisManager \<times> event list \<times> error option outcome" where
  "ConnectAllAtStart e rs =
     (if length rs > 0 then
        (case ConnectAllAtStart_loop e rs of
           (rs', t, Returned None) \<Rightarrow>
             (rs',
              Log_Info ''Connecting to Redis Manager... start'' @ t
                @ Log_Info ''Connecting to Redis Manager... done'',
              Returned None)
         | (rs', t, Returned (Some err)) \<Rightarrow>
             (rs', Log_Info ''Connecting to Redis Manager... start'' @ t, Returned (Some err))
         | (rs', t, Terminated) \<Rightarrow>
             (rs', Log_Info ''Connecting to Redis Manager... start'' @ t, Terminated)
         | (rs', t, Panicked) \<Rightarrow>
             (rs', Log_Info ''Connecting to Redis Manager... start'' @ t, Panicked))
      else (rs, [], Returned None))"

subsection \<open>The SQL-database family\<close>

text \<open>
  \<^verbatim>\<open>DXDatabase.ApplyFromConfiguration\<close> and \<^verbatim>\<open>DXDatabase.Connect\<close> are not among the source
  files: the manager is modelled over any pair of them, each giving the handle as it
  leaves it, its effects and how it ends.
\<close>

record DXDatabase_methods =
  db_ApplyFromConfiguration ::
    "string \<Rightarrow> DXDatabase \<Rightarrow> DXDatabase \<times> event list \<times> error option outcome"
  db_Connect :: "DXDatabase \<Rightarrow> DXDatabase \<times> event list \<times> error option outcome"

definition NewDatabase ::
  "DXDatabaseManager \<Rightarrow> string \<Rightarrow> bool \<Rightarrow> bool \<Rightarrow> DXDatabase \<times> DXDatabaseManager" where
  "NewDatabase dm nameId isConnectAtStart mustBeConnected =
     (let d = \<lparr>NameId = nameId, IsConfigured = False, IsConnectAtStart = isConnectAtStart,
               MustConnected = mustBeConnected, Connected = False\<rparr>
      in (d, AList.update nameId d dm))"

text \<open>
  \<^verbatim>\<open>configuration := configurations.Manager.Configurations[configurationNameId]\<close>: the
  one-value read of a Go map, which gives the zero value for a missing key. Whether the
  map holds configurations or pointers to them, the zero value has no \<^verbatim>\<open>Data\<close> to
  dereference.
\<close>

definition map_index :: "(string \<Rightarrow> DXConfiguration option) \<Rightarrow> string \<Rightarrow> DXConfiguration" where
  "map_index cfgs k = (case cfgs k of None \<Rightarrow> \<lparr>Data = None\<rparr> | Some c \<Rightarrow> c)"

fun LoadFromConfiguration_db_loop ::
  "DXDatabase_methods \<Rightarrow> string \<Rightarrow> JSON \<Rightarrow> DXDatabaseManager
     \<Rightarrow> DXDatabaseManager \<times> event list \<times> error option outcome" where
  "LoadFromConfiguration_db_loop ops configurationNameId [] dm = (dm, [], Returned None)"
| "LoadFromConfiguration_db_loop ops configurationNameId ((k, v) # kvs) dm =
     (case as_JSON (Some v) of
        None \<Rightarrow> return_created dm [] (Log_ErrorAndCreateErrorf ''Cannot read %s as JSON'' [k])
      | Some d \<Rightarrow>
         (let (b1, ok1) = as_bool (map_of d ''is_connect_at_start'');
              isConnectAtStart = (if \<not> ok1 then False else b1);
              (b2, ok2) = as_bool (map_of d ''must_connected'');
              mustConnected = (if \<not> ok2 then False else b2);
              (databaseObject, dm1) = NewDatabase dm k isConnectAtStart mustConnected
          in case db_ApplyFromConfiguration ops configurationNameId databaseObject of
               (d', t, Returned None) \<Rightarrow>
                 (case LoadFromConfiguration_db_loop ops configurationNameId kvs
                         (AList.update k d' dm1) of
                    (dm2, t2, res) \<Rightarrow> (dm2, t @ t2, res))
             | (d', t, Returned (Some err)) \<Rightarrow> (AList.update k d' dm1, t, Returned (Some err))
             | (d', t, Terminated) \<Rightarrow> (AList.update k d' dm1, t, Terminated)
             | (d', t, Panicked) \<Rightarrow> (AList.update k d' dm1, t, Panicked)))"

definition LoadFromConfiguration_db ::
  "DXDatabase_methods \<Rightarrow> (string \<Rightarrow> DXConfiguration option) \<Rightarrow> string \<Rightarrow> DXDatabaseManager
     \<Rightarrow> DXDatabaseManager \<times> event list \<times> error option outcome" where
  "LoadFromConfiguration_db ops cfgs configurationNameId dm =
     (let configuration = map_index cfgs configurationNameId
      in case Data configuration of
           None \<Rightarrow> (dm, [ReadSection configurationNameId], Panicked)
         | Some d \<Rightarrow>
            (case LoadFromConfiguration_db_loop ops configurationNameId d dm of
               (dm', t, res) \<Rightarrow> (dm', ReadSection configurationNameId # t, res)))"

fun ConnectAllAtStart_db_loop ::
  "DXDatabase_methods \<Rightarrow> string \<Rightarrow> DXDatabaseManager
     \<Rightarrow> DXDatabaseManager \<times> event list \<times> error option outcome" where
  "ConnectAllAtStart_db_loop ops configurationNameId [] = ([], [], Returned None)"
| "ConnectAllAtStart_db_loop ops configurationNameId ((k, v) # rest) =
     (case db_ApplyFromConfiguration ops configurationNameId v of
        (v1, t1, Returned (Some err)) \<Rightarrow>
          return_created ((k, v1) # rest) t1
            (Log_ErrorAndCreateErrorf ''Cannot configure to database %s to connect'' [NameId v1])
      | (v1, t1, Terminated) \<Rightarrow> ((k, v1) # rest, t1, Terminated)
      | (v1, t1, Panicked) \<Rightarrow> ((k, v1) # rest, t1, Panicked)
      | (v1, t1, Returned None) \<Rightarrow>
         (if IsConnectAtStart v1 then
            (case db_Connect ops v1 of
               (v2, t2, Returned None) \<Rightarrow>
                 (case ConnectAllAtStart_db_loop ops configurationNameId rest of
                    (rest', t', res) \<Rightarrow> ((k, v2) # rest', t1 @ t2 @ t', res))
             | (v2, t2, Returned (Some err)) \<Rightarrow> ((k, v2) # rest, t1 @ t2, Returned (Some err))
             | (v2, t2, Terminated) \<Rightarrow> ((k, v2) # rest, t1 @ t2, Terminated)
             | (v2, t2, Panicked) \<Rightarrow> ((k, v2) # rest, t1 @ t2, Panicked))
          else
            (case ConnectAllAtStart_db_loop ops configurationNameId rest of
               (rest', t', res) \<Rightarrow> ((k, v1) # rest', t1 @ t', res))))"

definition ConnectAllAtStart_db ::
  "DXDatabase_methods \<Rightarrow> string \<Rightarrow> DXDatabaseManager
     \<Rightarrow> DXDatabaseManager \<times> event list \<times> error option outcome" where
  "ConnectAllAtStart_db ops configurationNameId dm =
     (if length dm > 0 then
        (case ConnectAllAtStart_db_loop ops configurationNameId dm of
           (dm', t, Returned None) \<Rightarrow>
             (dm',
              Log_Info ''Connecting to Database Manager... start'' @ t
                @ Log_Info ''Connecting to Database Manager... done'',
              Returned None)
         | (dm', t, Returned (Some err)) \<Rightarrow>
             (dm', Log_Info ''Connecting to Database Manager... start'' @ t, Returned (Some err))
         | (dm', t, Terminated) \<Rightarrow>
             (dm', Log_Info ''Connecting to Database Manager... start'' @ t, Terminated)
         | (dm', t, Panicked) \<Rightarrow>
             (dm', Log_Info ''Connecting to Database Manager... start'' @ t, Panicked))
      else (dm, [], Returned None))"

section \<open>The JSON encoding of the Go standard library\<close>

text \<open>
  \<^verbatim>\<open>json.Marshal\<close> and \<^verbatim>\<open>json.Unmarshal\<close> of \<^verbatim>\<open>encoding/json\<close> on the values of the model,
  for the concrete inputs below. A \<open>string\<close> is a Go string, byte by byte.
\<close>

definition dquote :: char where "dquote = CHR 0x22"
definition bslash :: char where "bslash = CHR 0x5C"

definition byte :: "char \<Rightarrow> nat" where
  "byte c = of_char c"

definition between :: "char \<Rightarrow> nat \<Rightarrow> nat \<Rightarrow> bool" where
  "between c lo hi = (lo \<le> byte c \<and> byte c \<le> hi)"

subsection \<open>Encoding\<close>

fun digits_of :: "nat \<Rightarrow> string" where
  "digits_of n =
     (if n < 10 then [''0123456789'' ! n]
      else digits_of (n div 10) @ [''0123456789'' ! (n mod 10)])"

definition decimal :: "int \<Rightarrow> string" where
  "decimal i = (if i < 0 then CHR ''-'' # digits_of (nat (- i)) else digits_of (nat i))"

text \<open>
  \<^verbatim>\<open>utf8.DecodeRune\<close>, as far as the codec needs it: the number of bytes of the well-formed
  UTF-8 sequence at the head of the string, \<open>0\<close> when there is none (Go then reads one byte
  as \<^verbatim>\<open>U+FFFD\<close>).
\<close>

definition continuation :: "char \<Rightarrow> bool" where
  "continuation c = between c 0x80 0xBF"

fun utf8_len :: "string \<Rightarrow> nat" where
  "utf8_len [] = 0"
| "utf8_len (c # cs) =
     (if byte c < 0x80 then 1
      else if between c 0xC2 0xDF then
        (case cs of c1 # r \<Rightarrow> if continuation c1 then 2 else 0 | _ \<Rightarrow> 0)
      else if between c 0xE0 0xEF then
        (case cs of
           c1 # c2 # r \<Rightarrow>
             if (if byte c = 0xE0 then between c1 0xA0 0xBF
                 else if byte c = 0xED then between c1 0x80 0x9F
                 else continuation c1) \<and> continuation c2
             then 3 else 0
         | _ \<Rightarrow> 0)
      else if between c 0xF0 0xF4 then
        (case cs of
           c1 # c2 # c3 # r \<Rightarrow>
             if (if byte c = 0xF0 then between c1 0x90 0xBF
                 else if byte c = 0xF4 then between c1 0x80 0x8F
                 else continuation c1) \<and> continuation c2 \<and> continuation c3
             then 4 else 0
         | _ \<Rightarrow> 0)
      else 0)"

definition replacement :: string where
  "replacement = [CHR 0xEF, CHR 0xBF, CHR 0xBD]"

definition u_escape :: "nat \<Rightarrow> string" where
  "u_escape n =
     [bslash, CHR ''u'',
      ''0123456789abcdef'' ! (n div 4096 mod 16), ''0123456789abcdef'' ! (n div 256 mod 16),
      ''0123456789abcdef'' ! (n div 16 mod 16), ''0123456789abcdef'' ! (n mod 16)]"

text \<open>
  A string between quotes, as \<^verbatim>\<open>json.Marshal\<close> writes it (HTML escaping is on): the quote
  and the backslash behind a backslash, the short escapes for backspace, form feed, line
  feed, carriage return and tab (Go 1.22 and later; earlier versions write backspace and
  form feed as \<^verbatim>\<open>\u0008\<close> and \<^verbatim>\<open>\u000c\<close>), \<^verbatim>\<open>\u00XX\<close> for the other control characters and for
  \<^verbatim>\<open><\<close>, \<^verbatim>\<open>>\<close> and \<^verbatim>\<open>&\<close>, \<^verbatim>\<open>\ufffd\<close> for a byte that starts no well-formed UTF-8 sequence,
  \<^verbatim>\<open>\u2028\<close> and \<^verbatim>\<open>\u2029\<close> for these two code points, every other byte as it is.
\<close>

definition escape_ascii :: "char \<Rightarrow> string" where
  "escape_ascii c =
     (if c = dquote \<or> c = bslash then [bslash, c]
      else if byte c = 0x08 then [bslash, CHR ''b'']
      else if byte c = 0x0C then [bslash, CHR ''f'']
      else if byte c = 0x0A then [bslash, CHR ''n'']
      else if byte c = 0x0D then [bslash, CHR ''r'']
      else if byte c = 0x09 then [bslash, CHR ''t'']
      else if byte c < 0x20 \<or> c = CHR ''<'' \<or> c = CHR ''>'' \<or> c = CHR ''&'' then u_escape (byte c)
      else [c])"

function escape :: "string \<Rightarrow> string" where
  "escape [] = []"
| "escape (c # cs) =
     (if byte c < 0x80 then escape_ascii c @ escape cs
      else if utf8_len (c # cs) = 0 then u_escape 0xFFFD @ escape cs
      else if take 3 (c # cs) = [CHR 0xE2, CHR 0x80, CHR 0xA8] then u_escape 0x2028 @ escape (drop 2 cs)
      else if take 3 (c # cs) = [CHR 0xE2, CHR 0x80, CHR 0xA9] then u_escape 0x2029 @ escape (drop 2 cs)
      else take (utf8_len (c # cs)) (c # cs) @ escape (drop (utf8_len (c # cs) - 1) cs))"
  by pat_completeness auto
termination
  by (relation "measure length") auto

definition quote :: "string \<Rightarrow> string" where
  "quote s = dquote # escape s @ [dquote]"

text \<open>
  An object is written with its keys sorted (byte order) and a comma between the
  members; an association list stands for the map it is read as, so an entry behind
  another one with the same key is not written. An encoding fails as a whole when the
  encoding of a part fails.
\<close>

definition object_text :: "(string \<times> string) list \<Rightarrow> string" where
  "object_text ms =
     CHR ''{''
       # concat (map (\<lambda>(i, (k, s)). (if 0 < i then '','' else '''') @ quote k @ '':'' @ s)
                   (enumerate 0 (sort_key fst (AList.clearjunk ms))))
       @ ''}''"

definition array_text :: "string list \<Rightarrow> string" where
  "array_text ss =
     CHR ''['' # concat (map (\<lambda>(i, s). (if 0 < i then '','' else '''') @ s) (enumerate 0 ss)) @ '']''"

fun first_error :: "('k \<times> (error + 'v)) list \<Rightarrow> error option" where
  "first_error [] = None"
| "first_error ((k, Inl e) # ms) = Some e"
| "first_error ((k, Inr s) # ms) = first_error ms"

definition object_of :: "(string \<times> (error + string)) list \<Rightarrow> error + string" where
  "object_of ms =
     (case first_error ms of
        Some e \<Rightarrow> Inl e
      | None \<Rightarrow> Inr (object_text (map (map_prod id projr) ms)))"

definition array_of :: "(error + string) list \<Rightarrow> error + string" where
  "array_of ss =
     (case first_error (map (Pair ()) ss) of
        Some e \<Rightarrow> Inl e
      | None \<Rightarrow> Inr (array_text (map projr ss)))"

primrec marshal_any :: "any \<Rightarrow> error + string" where
  "marshal_any ANil = Inr ''null''"
| "marshal_any (ABool b) = Inr (if b then ''true'' else ''false'')"
| "marshal_any (AString s) = Inr (quote s)"
| "marshal_any (AInt n) = Inr (decimal n)"
| "marshal_any (AFloat64 w) = Inr (decimal (sint w))"
| "marshal_any AChan = Inl (LibError ''json: unsupported type'')"
| "marshal_any (AJSON kvs) = object_of (map (map_prod id marshal_any) kvs)"
| "marshal_any (AArray vs) = array_of (map marshal_any vs)"

definition json_Marshal :: "JSON option \<Rightarrow> error + bytes" where
  "json_Marshal v = (case v of None \<Rightarrow> Inr ''null'' | Some kvs \<Rightarrow> marshal_any (AJSON kvs))"

subsection \<open>Decoding\<close>

text \<open>
  The two ways the decoder of the model fails: the document is no JSON (or nests deeper
  than 10000, or is no object and not \<^verbatim>\<open>null\<close>) and \<^verbatim>\<open>json.Unmarshal\<close> fails as well; or
  the document holds a number that is no \<open>AFloat64\<close> of the model, where \<^verbatim>\<open>json.Unmarshal\<close>
  may well succeed: a number written with a fraction or an exponent, a number outside
  \<open>- 2 ^ 53 \<dots> 2 ^ 53 - 1\<close>, the negative zero.
\<close>

definition syntax_error :: error where
  "syntax_error = LibError ''json: syntax error''"

definition outside_error :: error where
  "outside_error = LibError ''a number outside the model''"

definition is_space :: "char \<Rightarrow> bool" where
  "is_space c = (c = CHR '' '' \<or> byte c = 0x09 \<or> byte c = 0x0A \<or> byte c = 0x0D)"

definition skip_space :: "string \<Rightarrow> string" where
  "skip_space cs = dropWhile is_space cs"

definition is_digit :: "char \<Rightarrow> bool" where
  "is_digit c = between c 0x30 0x39"

definition hex_value :: "char \<Rightarrow> nat option" where
  "hex_value c =
     (if between c 0x30 0x39 then Some (byte c - 0x30)
      else if between c 0x41 0x46 then Some (byte c - 0x41 + 10)
      else if between c 0x61 0x66 then Some (byte c - 0x61 + 10)
      else None)"

definition getu4 :: "string \<Rightarrow> nat option" where
  "getu4 cs =
     (case cs of
        b # u # h1 # h2 # h3 # h4 # r \<Rightarrow>
          if b = bslash \<and> u = CHR ''u'' then
            (case (hex_value h1, hex_value h2, hex_value h3, hex_value h4) of
               (Some a, Some b, Some c, Some d) \<Rightarrow> Some (a * 4096 + b * 256 + c * 16 + d)
             | _ \<Rightarrow> None)
          else None
      | _ \<Rightarrow> None)"

definition encode_rune :: "nat \<Rightarrow> string" where
  "encode_rune n =
     (if n < 0x80 then [char_of n]
      else if n < 0x800 then [char_of (0xC0 + n div 64), char_of (0x80 + n mod 64)]
      else if n < 0x10000 then
        [char_of (0xE0 + n div 4096), char_of (0x80 + n div 64 mod 64), char_of (0x80 + n mod 64)]
      else
        [char_of (0xF0 + n div 262144), char_of (0x80 + n div 4096 mod 64),
         char_of (0x80 + n div 64 mod 64), char_of (0x80 + n mod 64)])"

definition is_surrogate :: "nat \<Rightarrow> bool" where
  "is_surrogate n = (0xD800 \<le> n \<and> n < 0xE000)"

definition prepend :: "string \<Rightarrow> error + (string \<times> string) \<Rightarrow> error + (string \<times> string)" where
  "prepend s res = (case res of Inl e \<Rightarrow> Inl e | Inr (t, r) \<Rightarrow> Inr (s @ t, r))"

text \<open>
  A string literal behind its opening quote: the string it denotes and what follows the
  closing quote. A control character is an error, an escape is one of
  \<^verbatim>\<open>\" \\ \/ \b \f \n \r \t \uXXXX\<close>, two \<^verbatim>\<open>\u\<close> escapes that form a surrogate pair denote one
  code point, a surrogate without its partner and a byte that starts no well-formed
  UTF-8 sequence denote \<^verbatim>\<open>U+FFFD\<close>.
\<close>

function unquote :: "string \<Rightarrow> error + (string \<times> string)" where
  "unquote [] = Inl syntax_error"
| "unquote (c # cs) =
     (if c = dquote then Inr ([], cs)
      else if c = bslash then
        (case cs of
           [] \<Rightarrow> Inl syntax_error
         | e # r \<Rightarrow>
            if e = CHR ''u'' then
              (case getu4 (c # cs) of
                 None \<Rightarrow> Inl syntax_error
               | Some n \<Rightarrow>
                  if is_surrogate n then
                    (case getu4 (drop 5 cs) of
                       None \<Rightarrow> prepend replacement (unquote (drop 5 cs))
                     | Some m \<Rightarrow>
                        if n < 0xDC00 \<and> 0xDC00 \<le> m \<and> m < 0xE000 then
                          prepend (encode_rune ((n - 0xD800) * 1024 + (m - 0xDC00) + 0x10000))
                            (unquote (drop 11 cs))
                        else prepend replacement (unquote (drop 5 cs)))
                  else prepend (encode_rune n) (unquote (drop 5 cs)))
            else if e = dquote \<or> e = bslash \<or> e = CHR ''/'' then prepend [e] (unquote r)
            else if e = CHR ''b'' then prepend [CHR 0x08] (unquote r)
            else if e = CHR ''f'' then prepend [CHR 0x0C] (unquote r)
            else if e = CHR ''n'' then prepend [CHR 0x0A] (unquote r)
            else if e = CHR ''r'' then prepend [CHR 0x0D] (unquote r)
            else if e = CHR ''t'' then prepend [CHR 0x09] (unquote r)
            else Inl syntax_error)
      else if byte c < 0x20 then Inl syntax_error
      else if byte c < 0x80 then prepend [c] (unquote cs)
      else if utf8_len (c # cs) = 0 then prepend replacement (unquote cs)
      else prepend (take (utf8_len (c # cs)) (c # cs))
             (unquote (drop (utf8_len (c # cs) - 1) cs)))"
  by pat_completeness auto
termination
  by (relation "measure length") auto

text \<open>
  A number: an optional minus sign and digits without a leading zero, decoded to the
  \<^verbatim>\<open>float64\<close> of that value.
\<close>

definition number :: "string \<Rightarrow> error + (any \<times> string)" where
  "number cs =
     (let negative = (case cs of c # r \<Rightarrow> c = CHR ''-'' | [] \<Rightarrow> False);
          r0 = (if negative then tl cs else cs);
          ds = takeWhile is_digit r0;
          rest = dropWhile is_digit r0;
          n = foldl (\<lambda>a c. 10 * a + int (byte c - 0x30)) 0 ds
      in if ds = [] then Inl syntax_error
         else if 1 < length ds \<and> hd ds = CHR ''0'' then Inl syntax_error
         else if (case rest of c # r \<Rightarrow> c = CHR ''.'' \<or> c = CHR ''e'' \<or> c = CHR ''E'' | [] \<Rightarrow> False)
         then Inl outside_error
         else if negative then
           (if n = 0 then Inl outside_error
            else if n \<le> 2 ^ 53 then Inr (AFloat64 (word_of_int (- n)), rest)
            else Inl outside_error)
         else if n < 2 ^ 53 then Inr (AFloat64 (word_of_int n), rest)
         else Inl outside_error)"

text \<open>
  A value, the members of an object behind its first key's quote, the elements of an
  array: the value and what follows it. White space may stand between the tokens; a key
  written twice keeps its last value; the first argument bounds the number of nested
  calls (the length of the document is enough), the second counts the nesting of objects
  and arrays.
\<close>

fun parse_value :: "nat \<Rightarrow> nat \<Rightarrow> string \<Rightarrow> error + (any \<times> string)"
  and parse_members :: "nat \<Rightarrow> nat \<Rightarrow> JSON \<Rightarrow> string \<Rightarrow> error + (any \<times> string)"
  and parse_elements :: "nat \<Rightarrow> nat \<Rightarrow> any list \<Rightarrow> string \<Rightarrow> error + (any \<times> string)" where
  "parse_value 0 depth cs = Inl syntax_error"
| "parse_value (Suc fuel) depth cs =
     (case skip_space cs of
        [] \<Rightarrow> Inl syntax_error
      | c # r \<Rightarrow>
         if c = CHR ''{'' then
           (if 10000 \<le> depth then Inl syntax_error
            else
              (case skip_space r of
                 [] \<Rightarrow> Inl syntax_error
               | c' # r' \<Rightarrow>
                  if c' = CHR ''}'' then Inr (AJSON [], r')
                  else parse_members fuel (Suc depth) [] (c' # r')))
         else if c = CHR ''['' then
           (if 10000 \<le> depth then Inl syntax_error
            else
              (case skip_space r of
                 [] \<Rightarrow> Inl syntax_error
               | c' # r' \<Rightarrow>
                  if c' = CHR '']'' then Inr (AArray [], r')
                  else parse_elements fuel (Suc depth) [] (c' # r')))
         else if c = dquote then
           (case unquote r of Inl e \<Rightarrow> Inl e | Inr (s, r') \<Rightarrow> Inr (AString s, r'))
         else if take 4 (c # r) = ''true'' then Inr (ABool True, drop 3 r)
         else if take 5 (c # r) = ''false'' then Inr (ABool False, drop 4 r)
         else if take 4 (c # r) = ''null'' then Inr (ANil, drop 3 r)
         else number (c # r))"
| "parse_members 0 depth acc cs = Inl syntax_error"
| "parse_members (Suc fuel) depth acc cs =
     (case skip_space cs of
        [] \<Rightarrow> Inl syntax_error
      | c # r \<Rightarrow>
         if c = dquote then
           (case unquote r of
              Inl e \<Rightarrow> Inl e
            | Inr (k, r1) \<Rightarrow>
               (case skip_space r1 of
                  [] \<Rightarrow> Inl syntax_error
                | c1 # r2 \<Rightarrow>
                   if c1 = CHR '':'' then
                     (case parse_value fuel depth r2 of
                        Inl e \<Rightarrow> Inl e
                      | Inr (v, r3) \<Rightarrow>
                         (case skip_space r3 of
                            [] \<Rightarrow> Inl syntax_error
                          | c3 # r4 \<Rightarrow>
                             if c3 = CHR '','' then
                               parse_members fuel depth (AList.update k v acc) r4
                             else if c3 = CHR ''}'' then Inr (AJSON (AList.update k v acc), r4)
                             else Inl syntax_error))
                   else Inl syntax_error))
         else Inl syntax_error)"
| "parse_elements 0 depth acc cs = Inl syntax_error"
| "parse_elements (Suc fuel) depth acc cs =
     (case parse_value fuel depth cs of
        Inl e \<Rightarrow> Inl e
      | Inr (v, r1) \<Rightarrow>
         (case skip_space r1 of
            [] \<Rightarrow> Inl syntax_error
          | c # r2 \<Rightarrow>
             if c = CHR '','' then parse_elements fuel depth (acc @ [v]) r2
             else if c = CHR '']'' then Inr (AArray (acc @ [v]), r2)
             else Inl syntax_error))"

text \<open>
  \<^verbatim>\<open>json.Unmarshal(b, &value)\<close> into a nil \<^verbatim>\<open>utils.JSON\<close>: \<^verbatim>\<open>null\<close> leaves it nil, an object
  fills it, any other value is a type error, and so is anything but white space behind
  the value.
\<close>

definition json_Unmarshal :: "bytes \<Rightarrow> error + JSON option" where
  "json_Unmarshal b =
     (case parse_value (Suc (length b)) 0 b of
        Inl e \<Rightarrow> Inl e
      | Inr (v, rest) \<Rightarrow>
         if skip_space rest = [] then
           (case v of
              ANil \<Rightarrow> Inr None
            | AJSON kvs \<Rightarrow> Inr (Some kvs)
            | _ \<Rightarrow> Inl (LibError ''json: cannot unmarshal into Go value of type map[string]interface {}''))
         else Inl syntax_error)"

section \<open>Call sequences and concrete inputs\<close>

text \<open>
  A sequence of calls of \<^verbatim>\<open>ApplyFromConfiguration\<close> on one handle, one environment per call
  (the configuration may change between calls): the effects and the end of each call, in
  order. Nothing is called after a call that ended the process.
\<close>

fun ApplyFromConfiguration_calls ::
  "env list \<Rightarrow> DXRedis \<Rightarrow> (event list \<times> error option outcome) list" where
  "ApplyFromConfiguration_calls [] r = []"
| "ApplyFromConfiguration_calls (e # es) r =
     (case ApplyFromConfiguration e r of
        (r', t, Returned x) \<Rightarrow> (t, Returned x) # ApplyFromConfiguration_calls es r'
      | (r', t, Terminated) \<Rightarrow> [(t, Terminated)]
      | (r', t, Panicked) \<Rightarrow> [(t, Panicked)])"

text \<open>
  What the spec asks of \<^verbatim>\<open>ConnectAllAtStart\<close> for one handle, in each family, as the handle
  it leaves and the effects it has. For a database handle: the configuration applied,
  then the handle connected if its flag is set. For a Redis handle the manager calls
  nothing but \<^verbatim>\<open>Connect\<close>, and only if the flag is set.
\<close>

definition db_at_start ::
  "DXDatabase_methods \<Rightarrow> string \<Rightarrow> DXDatabase \<Rightarrow> DXDatabase \<times> event list" where
  "db_at_start ops n v =
     (case db_ApplyFromConfiguration ops n v of
        (v1, t1, x) \<Rightarrow>
          (if IsConnectAtStart v1 then
             (case db_Connect ops v1 of (v2, t2, y) \<Rightarrow> (v2, t1 @ t2))
           else (v1, t1)))"

definition redis_at_start :: "env \<Rightarrow> DXRedis \<Rightarrow> DXRedis \<times> event list" where
  "redis_at_start e v =
     (if IsConnectAtStart v then (case Connect e v of (v', t, x) \<Rightarrow> (v', t)) else (v, []))"

text \<open>
  An instance of \<^verbatim>\<open>json2.GetInt\<close> for the concrete inputs below: the integer under the key,
  and an error when the key is missing or holds no integer, which is how its call site
  reads the error ("Mandatory database_index field in Redis %s configuration not exist,
  check configuration and make sure it was integer not a string").
\<close>

definition GetInt_strict :: "JSON \<Rightarrow> string \<Rightarrow> int \<times> error option" where
  "GetInt_strict kv k =
     (case map_of kv k of
        Some (AInt n) \<Rightarrow> (n, None)
      | Some (AFloat64 w) \<Rightarrow> (sint w, None)
      | _ \<Rightarrow> (0, Some (LibError ''not an integer'')))"

text \<open>
  An environment whose \<^verbatim>\<open>redis\<close> section holds the given records and whose server answers
  every ping.
\<close>

definition example_env :: "JSON \<Rightarrow> env" where
  "example_env records =
     \<lparr>Configurations = [''redis'' \<mapsto> \<lparr>Data = Some records\<rparr>],
      GetInt = GetInt_strict,
      PingOf = (\<lambda>opts. None)\<rparr>"

text \<open>
  The codec of the concrete inputs: the encoding above.
\<close>

definition example_codec :: codec where
  "example_codec = \<lparr>Marshal = json_Marshal, Unmarshal = json_Unmarshal\<rparr>"

text \<open>
  Methods of a database handle for the concrete inputs: applying the configuration marks
  the handle configured, connecting marks it connected, and neither fails.
\<close>

definition example_methods :: DXDatabase_methods where
  "example_methods =
     \<lparr>db_ApplyFromConfiguration = (\<lambda>n d. (d\<lparr>IsConfigured := True\<rparr>, [ReadSection n], Returned None)),
      db_Connect = (\<lambda>d. (d\<lparr>Connected := True\<rparr>, [CmdPing], Returned None))\<rparr>"

text \<open>
  The handle \<^verbatim>\<open>NewRedis\<close> registers under the name \<^verbatim>\<open>a\<close> in an empty manager, and the same
  handle as a successful \<^verbatim>\<open>Connect\<close> to \<^verbatim>\<open>localhost:6379\<close> leaves it.
\<close>

definition example_handle :: "bool \<Rightarrow> bool \<Rightarrow> DXRedis" where
  "example_handle isConnectAtStart mustConnected =
     fst (NewRedis [] ''a'' isConnectAtStart mustConnected)"

definition example_connected :: DXRedis where
  "example_connected =
     (example_handle True False)
       \<lparr>IsConfigured := True, Connected := True, Address := ''localhost:6379'',
        Connection := Some \<lparr>opt_Addrs = [(''shard1'', ''localhost:6379'')], opt_DB = 0,
                             opt_Username = '''', opt_Password = ''''\<rparr>\<rparr>"

definition example_record :: JSON where
  "example_record = [(''address'', AString ''localhost:6379''), (''database_index'', AInt 0)]"

text \<open>
  A Redis registry with a handle \<^verbatim>\<open>a\<close> to connect at start and a handle \<^verbatim>\<open>b\<close> not to, a
  section with a record for each, and a database registry of the same shape.
\<close>

definition example_registry :: DXRedisManager where
  "example_registry = snd (NewRedis (snd (NewRedis [] ''a'' True False)) ''b'' False False)"

definition example_section :: JSON where
  "example_section = [(''a'', AJSON example_record), (''b'', AJSON example_record)]"

definition example_databases :: DXDatabaseManager where
  "example_databases = snd (NewDatabase (snd (NewDatabase [] ''a'' True False)) ''b'' False False)"

section \<open>Properties\<close>

subsection \<open>Facts about the concrete inputs\<close>

lemma example_handle_fresh:
  "\<not> IsConfigured (example_handle s m)" "\<not> Connected (example_handle s m)"
  "NameId (example_handle s m) = ''a''" "Connection (example_handle s m) = None"
  "MustConnected (example_handle s m) = m" "IsConnectAtStart (example_handle s m) = s"
  by (simp_all add: example_handle_def NewRedis_def Let_def)

lemma example_env_redis:
  "Configurations (example_env recs) ''redis'' = Some \<lparr>Data = Some recs\<rparr>"
  by (simp add: example_env_def)

lemma example_connected_fields:
  "Connected example_connected" "IsConfigured example_connected"
  "Connection example_connected =
     Some \<lparr>opt_Addrs = [(''shard1'', ''localhost:6379'')], opt_DB = 0,
           opt_Username = '''', opt_Password = ''''\<rparr>"
  by (simp_all add: example_connected_def)

subsection \<open>Loading a section that is absent\<close>

text \<open>
  C1. With the section \<open>n\<close> absent from the configuration registry, the Redis manager's
  \<^verbatim>\<open>LoadFromConfiguration\<close> returns the error \<^verbatim>\<open>CONFIGURATION_NOT_FOUND:n\<close> and leaves its
  registry as it was, as the claim says. The database manager's reads the map without
  the presence check and dereferences the \<^verbatim>\<open>Data\<close> of the zero value: it registers
  nothing either, but it ends in a runtime panic, not in that error.
\<close>

theorem LoadFromConfiguration_absent_section:
  "LoadFromConfiguration (e\<lparr>Configurations := (Configurations e)(n := None)\<rparr>) n rs =
     (rs, [ReadSection n], Returned (Some (Errorf ''CONFIGURATION_NOT_FOUND:%s'' [n])))
   \<and> LoadFromConfiguration_db ops (cfgs(n := None)) n dm = (dm, [ReadSection n], Panicked)"
  by (simp add: LoadFromConfiguration_def LoadFromConfiguration_db_def map_index_def)

subsection \<open>The address field is absent\<close>

text \<open>
  C4. On a handle that is not configured yet, whose record is present in the \<^verbatim>\<open>redis\<close>
  section and has no \<^verbatim>\<open>address\<close> field: if \<open>MustConnected\<close> is true the call hands the
  message to the logger at panic level, which ends the process, and returns nothing; if
  it is false the call logs a warning and returns the error built from it. Either way
  \<open>IsConfigured\<close> stays false (the only field written is \<open>Address\<close>, with the zero value
  of the failed assertion).
\<close>

theorem ApplyFromConfiguration_address_absent:
  assumes "\<not> IsConfigured r" and "Configurations e ''redis'' = Some cfg" and "Data cfg = Some m"
    and "as_JSON (map_of m (NameId r)) = Some rc" and "map_of rc ''address'' = None"
  shows "ApplyFromConfiguration e r =
           (r\<lparr>Address := ''''\<rparr>,
            [Log LevelInfo ''Configuring to Redis %s... start'' [ArgS (NameId r)],
             ReadSection ''redis'', ReadRecord (NameId r), ReadField ''address'',
             (if MustConnected r
              then Log LevelPanic ''Mandatory address field in Redis %s configuration not exist''
                     [ArgS (NameId r)]
              else Log LevelWarn
                     ''configuration is unusable, mandatory address field in Redis %s configuration not exist''
                     [ArgS (NameId r)])],
            (if MustConnected r then Terminated
             else Returned (Some (Errorf
                    ''configuration is unusable, mandatory address field in Redis %s configuration not exist''
                    [NameId r]))))
         \<and> \<not> IsConfigured (fst (ApplyFromConfiguration e r))"
  using assms
  by (simp add: ApplyFromConfiguration_def as_string_def return_created_def Log_Infof_def
      Log_PanicAndCreateErrorf_def Log_WarnAndCreateErrorf_def)

theorem ApplyFromConfiguration_address_absent_witness:
  "snd (snd (ApplyFromConfiguration (example_env [(''a'', AJSON [])]) (example_handle False True)))
     = Terminated
   \<and> snd (snd (ApplyFromConfiguration (example_env [(''a'', AJSON [])]) (example_handle False False)))
     = Returned (Some (Errorf
         ''configuration is unusable, mandatory address field in Redis %s configuration not exist''
         [''a'']))
   \<and> \<not> IsConfigured
         (fst (ApplyFromConfiguration (example_env [(''a'', AJSON [])]) (example_handle False True)))"
proof -
  have rec: "as_JSON (map_of [(''a'', AJSON [])] (NameId (example_handle s m))) = Some []" for s m
    by (simp add: as_JSON_def example_handle_fresh)
  have dat: "Data \<lparr>Data = Some [(''a'', AJSON [])]\<rparr> = Some [(''a'', AJSON [])]"
    by simp
  have adr: "map_of ([] :: JSON) ''address'' = None"
    by simp
  note must = ApplyFromConfiguration_address_absent
    [OF example_handle_fresh(1) example_env_redis dat rec adr, of False True]
  note may = ApplyFromConfiguration_address_absent
    [OF example_handle_fresh(1) example_env_redis dat rec adr, of False False]
  from must may show ?thesis
    by (simp add: example_handle_fresh)
qed

subsection \<open>Disconnect\<close>

text \<open>
  C5. On a connected handle (the flag is set and the ring is there): when closing the
  ring fails with \<open>err\<close>, \<^verbatim>\<open>Disconnect\<close> returns \<open>err\<close> and the handle is exactly as before,
  so \<open>Connection\<close> is still the ring and \<open>Connected\<close> still true; when closing succeeds,
  it clears \<open>Connection\<close>, sets \<open>Connected\<close> to false and returns no error.
\<close>

theorem Disconnect_close:
  assumes "Connected r" and "Connection r = Some c"
  shows "fst (Disconnect (Some err) r) = r
         \<and> snd (snd (Disconnect (Some err) r)) = Returned (Some err)
         \<and> fst (Disconnect None r) = r\<lparr>Connection := None, Connected := False\<rparr>
         \<and> snd (snd (Disconnect None r)) = Returned None"
  using assms by (simp add: Disconnect_def client_Close_def Let_def)

theorem Disconnect_close_witness:
  "fst (Disconnect (Some (LibError ''closed'')) example_connected) = example_connected
   \<and> snd (snd (Disconnect (Some (LibError ''closed'')) example_connected))
       = Returned (Some (LibError ''closed''))
   \<and> Connection (fst (Disconnect None example_connected)) = None
   \<and> Connected (fst (Disconnect None example_connected)) = False
   \<and> snd (snd (Disconnect None example_connected)) = Returned None"
  using Disconnect_close [OF example_connected_fields(1) example_connected_fields(3),
      of "LibError ''closed''"]
  by simp

subsection \<open>Reading a key\<close>

text \<open>
  C6. On a handle with its ring, when the client answers the read of \<open>key\<close> with an error
  that is \<^verbatim>\<open>redis.Nil\<close> (key not found), \<^verbatim>\<open>Get\<close> returns the nil value and no error, and
  \<^verbatim>\<open>MustGet\<close> returns the nil value and that error.
\<close>

theorem Get_MustGet_key_not_found:
  assumes "Connection r = Some c" and "client_Get io srv key = Inl err"
    and "errors_Is err RedisNil"
  shows "Get cd io srv r key = ([CmdGet key], Returned (None, None))
         \<and> snd (MustGet cd io srv r key) = Returned (None, Some err)"
  using assms by (simp add: Get_def MustGet_def)

theorem Get_MustGet_key_not_found_witness:
  "Get example_codec None Map.empty example_connected ''k'' = ([CmdGet ''k''], Returned (None, None))
   \<and> snd (MustGet example_codec None Map.empty example_connected ''k'')
       = Returned (None, Some RedisNil)"
proof -
  have absent: "client_Get None Map.empty ''k'' = Inl RedisNil"
    by (simp add: client_Get_def)
  have nil: "errors_Is RedisNil RedisNil"
    by simp
  show ?thesis
    by (rule Get_MustGet_key_not_found [OF example_connected_fields(3) absent nil])
qed

lemma example_codec_Marshal:
  "Marshal example_codec (Some []) = Inr ''{}''"
  "Marshal example_codec (Some [(''c'', AChan)]) = Inl (LibError ''json: unsupported type'')"
  by (simp_all add: example_codec_def json_Marshal_def object_of_def object_text_def)

lemma example_codec_int:
  \<open>Marshal example_codec (Some [(''n'', AInt 1)]) = Inr ''{"n":1}''\<close>
  \<open>Unmarshal example_codec ''{"n":1}'' = Inr (Some [(''n'', AFloat64 1)])\<close>
  by code_simp+

lemma example_codec_text:
  \<open>Marshal example_codec (Some [(''a'', ABool True), (''s'', AString ''x'')])
     = Inr ''{"a":true,"s":"x"}''\<close>
  \<open>Unmarshal example_codec ''{"a":true,"s":"x"}''
     = Inr (Some [(''a'', ABool True), (''s'', AString ''x'')])\<close>
  by code_simp+

text \<open>
  C9, as amended. A \<^verbatim>\<open>Set\<close> of \<open>v\<close> under \<open>key\<close> that returns no error has stored the bytes
  \<open>b\<close> that \<^verbatim>\<open>json.Marshal\<close> makes of \<open>v\<close>, and a \<^verbatim>\<open>Get\<close> of \<open>key\<close> on the store it left (no
  library error on the read) returns what \<^verbatim>\<open>json.Unmarshal\<close> makes of \<open>b\<close>: the decoded value
  and no error, or the decoding error. So the \<^verbatim>\<open>Get\<close> returns \<open>v\<close> itself exactly for the
  values that the encoding takes to bytes and back to themselves; for the others it
  returns the value as decoded (a Go \<^verbatim>\<open>int\<close> comes back as a \<^verbatim>\<open>float64\<close>).
\<close>

theorem Set_Get_decodes:
  assumes "Set cd io srv r key v d = (srv', t, Returned None)"
  shows "\<exists>b. Marshal cd v = Inr b
           \<and> t = [CmdSet key b d]
           \<and> Get cd None srv' r key =
               (case Unmarshal cd b of
                  Inr v' \<Rightarrow> ([CmdGet key], Returned (v', None))
                | Inl err \<Rightarrow>
                    ([CmdGet key]
                       @ Log_Errorf ''Cannot unmarshall from bytes in Redis %s k/v (%s) %s/%v''
                           [ArgS (NameId r), ArgE err, ArgS key, ArgB b],
                     Returned (None, Some err)))
           \<and> (Get cd None srv' r key = ([CmdGet key], Returned (v, None))
                \<longleftrightarrow> Unmarshal cd b = Inr v)"
proof -
  obtain b where b: "Marshal cd v = Inr b"
    using assms by (cases "Marshal cd v") (auto simp add: Set_def)
  obtain c where c: "Connection r = Some c"
    using assms b by (cases "Connection r") (auto simp add: Set_def)
  have io: "io = None" and srv': "srv' = srv(key \<mapsto> b)" and t: "t = [CmdSet key b d]"
    using assms b c by (cases io; auto simp add: Set_def client_Set_def)+
  have get: "Get cd None srv' r key =
      (case Unmarshal cd b of
         Inr v' \<Rightarrow> ([CmdGet key], Returned (v', None))
       | Inl err \<Rightarrow>
           ([CmdGet key]
              @ Log_Errorf ''Cannot unmarshall from bytes in Redis %s k/v (%s) %s/%v''
                  [ArgS (NameId r), ArgE err, ArgS key, ArgB b],
            Returned (None, Some err)))"
    by (simp add: Get_def client_Get_def c srv')
  have "(Get cd None srv' r key = ([CmdGet key], Returned (v, None))) = (Unmarshal cd b = Inr v)"
    unfolding get by (cases "Unmarshal cd b") (simp_all add: Log_Errorf_def)
  with b t get show ?thesis
    by blast
qed

theorem Set_Get_decodes_witness:
  \<open>Set example_codec None Map.empty example_connected ''k''
       (Some [(''a'', ABool True), (''s'', AString ''x'')]) 0
     = ([''k'' \<mapsto> ''{"a":true,"s":"x"}''], [CmdSet ''k'' ''{"a":true,"s":"x"}'' 0], Returned None)
   \<and> Get example_codec None [''k'' \<mapsto> ''{"a":true,"s":"x"}''] example_connected ''k''
     = ([CmdGet ''k''], Returned (Some [(''a'', ABool True), (''s'', AString ''x'')], None))\<close>
proof -
  let ?v = "Some [(''a'', ABool True), (''s'', AString ''x'')]"
  have stored: \<open>Set example_codec None Map.empty example_connected ''k'' ?v 0
     = ([''k'' \<mapsto> ''{"a":true,"s":"x"}''], [CmdSet ''k'' ''{"a":true,"s":"x"}'' 0], Returned None)\<close>
    by (simp add: Set_def example_codec_text client_Set_def example_connected_fields)
  from Set_Get_decodes [OF stored] example_codec_text stored show ?thesis
    by auto
qed

text \<open>
  The claim as stated fails: an object that holds the Go \<^verbatim>\<open>int\<close> 1 is serializable, the
  \<^verbatim>\<open>Set\<close> succeeds, and the \<^verbatim>\<open>Get\<close> returns an object that holds the \<^verbatim>\<open>float64\<close> 1.
\<close>

theorem Set_Get_int_counterexample:
  \<open>Set example_codec None Map.empty example_connected ''k'' (Some [(''n'', AInt 1)]) 0
     = ([''k'' \<mapsto> ''{"n":1}''], [CmdSet ''k'' ''{"n":1}'' 0], Returned None)
   \<and> Get example_codec None [''k'' \<mapsto> ''{"n":1}''] example_connected ''k''
     = ([CmdGet ''k''], Returned (Some [(''n'', AFloat64 1)], None))
   \<and> Some [(''n'', AFloat64 1)] \<noteq> Some [(''n'', AInt 1)]\<close>
  by (simp add: Set_def Get_def example_codec_int client_Set_def client_Get_def
      example_connected_fields)

subsection \<open>Data operations on a handle without a ring\<close>

lemma Set_nil_Connection:
  "Connection r = None \<Longrightarrow>
     (case Marshal cd v of
        Inr b \<Rightarrow> Set cd io srv r key v d = (srv, [], Panicked)
      | Inl err \<Rightarrow> snd (snd (Set cd io srv r key v d)) = Returned (Some err))"
  by (cases "Marshal cd v") (simp_all add: Set_def)

lemma Connected_not_read:
  "Ping io (r\<lparr>Connected := c\<rparr>) = Ping io r"
  "Get cd io srv (r\<lparr>Connected := c\<rparr>) key = Get cd io srv r key"
  "MustGet cd io srv (r\<lparr>Connected := c\<rparr>) key = MustGet cd io srv r key"
  "Delete io srv (r\<lparr>Connected := c\<rparr>) key = Delete io srv r key"
  "Set cd io srv (r\<lparr>Connected := c\<rparr>) key v d = Set cd io srv r key v d"
  by (simp_all add: Ping_def Get_def MustGet_def Delete_def Set_def
      cong: option.case_cong sum.case_cong prod.case_cong if_cong)

text \<open>
  C10, as amended. No data operation reads the \<open>Connected\<close> flag: changing it changes
  nothing of what \<^verbatim>\<open>Ping\<close>, \<^verbatim>\<open>Get\<close>, \<^verbatim>\<open>MustGet\<close>, \<^verbatim>\<open>Set\<close> and \<^verbatim>\<open>Delete\<close> do. On a handle
  whose \<open>Connection\<close> is nil, \<^verbatim>\<open>Ping\<close>, \<^verbatim>\<open>Get\<close>, \<^verbatim>\<open>MustGet\<close> and \<^verbatim>\<open>Delete\<close> dereference it
  (a runtime panic, no error returned), and so does \<^verbatim>\<open>Set\<close> once the value has been
  encoded; a value that cannot be encoded makes \<^verbatim>\<open>Set\<close> return the encoding error before
  it touches the connection.
\<close>

theorem data_operations_unchecked:
  "(Connection r = None \<longrightarrow>
      Ping io r = ([], Panicked)
      \<and> Get cd io srv r key = ([], Panicked)
      \<and> MustGet cd io srv r key = ([], Panicked)
      \<and> Delete io srv r key = (srv, [], Panicked)
      \<and> (case Marshal cd v of
           Inr b \<Rightarrow> Set cd io srv r key v d = (srv, [], Panicked)
         | Inl err \<Rightarrow> snd (snd (Set cd io srv r key v d)) = Returned (Some err)))
   \<and> Ping io (r\<lparr>Connected := c\<rparr>) = Ping io r
   \<and> Get cd io srv (r\<lparr>Connected := c\<rparr>) key = Get cd io srv r key
   \<and> MustGet cd io srv (r\<lparr>Connected := c\<rparr>) key = MustGet cd io srv r key
   \<and> Delete io srv (r\<lparr>Connected := c\<rparr>) key = Delete io srv r key
   \<and> Set cd io srv (r\<lparr>Connected := c\<rparr>) key v d = Set cd io srv r key v d"
proof -
  have "Ping io r = ([], Panicked)" "Get cd io srv r key = ([], Panicked)"
    "MustGet cd io srv r key = ([], Panicked)" "Delete io srv r key = (srv, [], Panicked)"
    if "Connection r = None"
    using that by (simp_all add: Ping_def Get_def MustGet_def Delete_def)
  then show ?thesis
    using Set_nil_Connection [where r = r and cd = cd and v = v and io = io and srv = srv and key = key and d = d] by (simp only: Connected_not_read) blast
qed

theorem data_operations_unchecked_witness:
  "Ping None (example_handle False False) = ([], Panicked)
   \<and> Get example_codec None Map.empty (example_handle False False) ''k'' = ([], Panicked)
   \<and> MustGet example_codec None Map.empty (example_handle False False) ''k'' = ([], Panicked)
   \<and> snd (Delete None Map.empty (example_handle False False) ''k'') = ([], Panicked)
   \<and> snd (Set example_codec None Map.empty (example_handle False False) ''k'' (Some []) 0)
       = ([], Panicked)"
  using data_operations_unchecked
    [where r = "example_handle False False" and io = None and cd = example_codec
       and srv = Map.empty and key = "''k''" and v = "Some []" and d = 0]
  by (simp add: example_handle_fresh example_codec_Marshal)

text \<open>
  The claim as stated fails for \<^verbatim>\<open>Set\<close>: on the fresh handle, whose \<open>Connection\<close> is nil,
  a \<^verbatim>\<open>Set\<close> of an object holding a channel returns the encoding error.
\<close>

theorem Set_nil_Connection_counterexample:
  "Connection (example_handle False False) = None
   \<and> snd (snd (Set example_codec None Map.empty (example_handle False False) ''k''
                 (Some [(''c'', AChan)]) 0))
       = Returned (Some (LibError ''json: unsupported type''))"
  by (simp add: Set_def example_codec_Marshal example_handle_fresh)

subsection \<open>Connect on a connected handle\<close>

text \<open>
  C8. Connect is idempotent: on a handle whose \<open>Connected\<close> flag is true, in every
  environment, it has no effect at all (no read of the configuration, no ring built, no
  ping, no message), leaves the handle as it is and returns no error.
\<close>

theorem Connect_connected_noop:
  "Connected r \<Longrightarrow> Connect e r = (r, [], Returned None)"
  by (simp add: Connect_def)

theorem Connect_connected_noop_witness:
  "Connected example_connected
   \<and> Connect (example_env []) example_connected = (example_connected, [], Returned None)"
  using Connect_connected_noop [OF example_connected_fields(1), of "example_env []"]
    example_connected_fields(1)
  by simp

subsection \<open>Applying the configuration\<close>

lemma ApplyFromConfiguration_configured:
  "IsConfigured r \<Longrightarrow> ApplyFromConfiguration e r = (r, [], Returned None)"
  by (simp add: ApplyFromConfiguration_def)

lemma ApplyFromConfiguration_success_configured:
  "ApplyFromConfiguration e r = (r', t, Returned None) \<Longrightarrow> IsConfigured r'"
  by (auto simp add: ApplyFromConfiguration_def return_created_def Let_def
      Log_PanicAndCreateErrorf_def Log_WarnAndCreateErrorf_def
      split: if_splits option.splits prod.splits)

lemma calls_configured:
  "IsConfigured r \<Longrightarrow>
     ApplyFromConfiguration_calls es r = replicate (length es) ([], Returned None)"
  by (induction es) (simp_all add: ApplyFromConfiguration_configured)

lemma calls_after_success:
  "i < j \<Longrightarrow> j < length (ApplyFromConfiguration_calls es r) \<Longrightarrow>
   snd (ApplyFromConfiguration_calls es r ! i) = Returned None \<Longrightarrow>
   ApplyFromConfiguration_calls es r ! j = ([], Returned None)"
proof (induction es arbitrary: r i j)
  case Nil
  then show ?case by simp
next
  case (Cons e es)
  obtain r' t res where ap: "ApplyFromConfiguration e r = (r', t, res)"
    by (cases "ApplyFromConfiguration e r") auto
  show ?case
  proof (cases res)
    case (Returned x)
    then have calls: "ApplyFromConfiguration_calls (e # es) r
        = (t, Returned x) # ApplyFromConfiguration_calls es r'"
      using ap by simp
    obtain j' where j: "j = Suc j'"
      using Cons.prems(1) by (cases j) auto
    show ?thesis
    proof (cases i)
      case 0
      then have "x = None"
        using Cons.prems(3) calls by simp
      then have "IsConfigured r'"
        using ap Returned ApplyFromConfiguration_success_configured by blast
      then have "ApplyFromConfiguration_calls es r' = replicate (length es) ([], Returned None)"
        by (rule calls_configured)
      then show ?thesis
        using Cons.prems(2) calls j by simp
    next
      case (Suc i')
      then show ?thesis
        using Cons.prems calls j Cons.IH [of i' j' r'] by simp
    qed
  next
    case Terminated
    then show ?thesis using ap Cons.prems by simp
  next
    case Panicked
    then show ?thesis using ap Cons.prems by simp
  qed
qed

text \<open>
  C7, as amended. On a handle whose \<open>IsConfigured\<close> is true, \<^verbatim>\<open>ApplyFromConfiguration\<close> is a
  no-op in every environment: no read of the configuration, no write to the handle, no
  message, no error. So in any sequence of calls on one handle, every call that comes
  after a call that returned no error does nothing: the fields are read at most once
  from the first successful call on. (A call that fails leaves \<open>IsConfigured\<close> false, and
  the next call reads the configuration again.)
\<close>

theorem ApplyFromConfiguration_idempotent:
  "(IsConfigured r \<longrightarrow> ApplyFromConfiguration e r = (r, [], Returned None))
   \<and> (\<forall>i j. i < j \<and> j < length (ApplyFromConfiguration_calls es r)
           \<and> snd (ApplyFromConfiguration_calls es r ! i) = Returned None
         \<longrightarrow> ApplyFromConfiguration_calls es r ! j = ([], Returned None))"
  using ApplyFromConfiguration_configured calls_after_success by blast

theorem ApplyFromConfiguration_idempotent_witness:
  "ApplyFromConfiguration (example_env []) example_connected
     = (example_connected, [], Returned None)
   \<and> snd (ApplyFromConfiguration_calls
            [example_env [(''a'', AJSON example_record)],
             example_env [(''a'', AJSON example_record)]]
            (example_handle False False) ! 0) = Returned None
   \<and> ApplyFromConfiguration_calls
        [example_env [(''a'', AJSON example_record)],
         example_env [(''a'', AJSON example_record)]]
        (example_handle False False) ! 1 = ([], Returned None)"
proof -
  let ?es = "[example_env [(''a'', AJSON example_record)],
              example_env [(''a'', AJSON example_record)]]"
  let ?h = "example_handle False False"
  have first: "snd (ApplyFromConfiguration_calls ?es ?h ! 0) = Returned None"
    and len: "1 < length (ApplyFromConfiguration_calls ?es ?h)"
    by (simp_all add: ApplyFromConfiguration_def example_env_def example_handle_def
        NewRedis_def Let_def as_JSON_def as_string_def GetInt_strict_def example_record_def)
  from ApplyFromConfiguration_idempotent
    [where r = example_connected and e = "example_env []" and es = ?es]
  have noop: "ApplyFromConfiguration (example_env []) example_connected
      = (example_connected, [], Returned None)"
    using example_connected_fields(2) by blast
  from ApplyFromConfiguration_idempotent [where r = ?h and es = ?es] first len
  have "ApplyFromConfiguration_calls ?es ?h ! 1 = ([], Returned None)"
    by (metis zero_less_one)
  with noop first show ?thesis
    by simp
qed

text \<open>
  The claim as stated fails: two calls on a handle whose record has no address (and
  that need not be connected) both fail with the recoverable error, and both read the
  \<^verbatim>\<open>address\<close> field.
\<close>

theorem ApplyFromConfiguration_reread_counterexample:
  "count_list
     (concat (map fst (ApplyFromConfiguration_calls
        [example_env [(''a'', AJSON [])], example_env [(''a'', AJSON [])]]
        (example_handle False False))))
     (ReadField ''address'') = 2"
  by (simp add: ApplyFromConfiguration_def example_env_def example_handle_def NewRedis_def
      Let_def as_JSON_def as_string_def return_created_def Log_WarnAndCreateErrorf_def
      Log_Infof_def)

lemma ApplyFromConfiguration_fields:
  assumes "\<not> IsConfigured r" and "Configurations e ''redis'' = Some cfg" and "Data cfg = Some m"
    and "as_JSON (map_of m (NameId r)) = Some rc"
    and "map_of rc ''address'' = Some (AString a)"
    and "GetInt e rc ''database_index'' = (n, err)"
  shows "fst (ApplyFromConfiguration e r) =
           r\<lparr>Address := a,
             UserName := fst (as_string (map_of rc ''user_name'')),
             HasUserName := snd (as_string (map_of rc ''user_name'')),
             Password := fst (as_string (map_of rc ''password'')),
             HasPassword := snd (as_string (map_of rc ''password'')),
             DatabaseIndex := n,
             IsConfigured := (err = None)\<rparr>"
    and "snd (snd (ApplyFromConfiguration e r)) =
           (case err of
              None \<Rightarrow> Returned None
            | Some x \<Rightarrow>
                if MustConnected r then Terminated
                else Returned (Some (Errorf
                  ''configuration is unusable, mandatory address field in Redis %s configuration not exist''
                  [NameId r])))"
  using assms
  by (cases err;
      simp add: ApplyFromConfiguration_def as_string_def return_created_def Let_def
        Log_PanicAndCreateErrorf_def Log_WarnAndCreateErrorf_def split: prod.splits)+

text \<open>
  C3, as amended. On a handle that is not configured yet, whose record is present in
  the \<^verbatim>\<open>redis\<close> section and holds a string under \<^verbatim>\<open>address\<close>: whether \<^verbatim>\<open>user_name\<close> and
  \<^verbatim>\<open>password\<close> are there plays no part in the success of the call, and an absent one
  leaves \<open>HasUserName\<close> (\<open>HasPassword\<close>) false. The call succeeds and sets \<open>IsConfigured\<close>
  exactly when the read of \<^verbatim>\<open>database_index\<close> by \<^verbatim>\<open>json2.GetInt\<close> reports no error; when
  it reports one, the call ends the process if \<open>MustConnected\<close> is true and returns a
  recoverable error otherwise, and the handle stays unconfigured.
\<close>

theorem ApplyFromConfiguration_optional_fields:
  assumes "\<not> IsConfigured r" and "Configurations e ''redis'' = Some cfg" and "Data cfg = Some m"
    and "as_JSON (map_of m (NameId r)) = Some rc"
    and "map_of rc ''address'' = Some (AString a)"
  shows "(snd (GetInt e rc ''database_index'') = None \<longrightarrow>
            snd (snd (ApplyFromConfiguration e r)) = Returned None
            \<and> fst (ApplyFromConfiguration e r) =
                r\<lparr>Address := a,
                  UserName := fst (as_string (map_of rc ''user_name'')),
                  HasUserName := snd (as_string (map_of rc ''user_name'')),
                  Password := fst (as_string (map_of rc ''password'')),
                  HasPassword := snd (as_string (map_of rc ''password'')),
                  DatabaseIndex := fst (GetInt e rc ''database_index''),
                  IsConfigured := True\<rparr>)
         \<and> (\<forall>x. snd (GetInt e rc ''database_index'') = Some x \<longrightarrow>
              snd (snd (ApplyFromConfiguration e r)) =
                (if MustConnected r then Terminated
                 else Returned (Some (Errorf
                   ''configuration is unusable, mandatory address field in Redis %s configuration not exist''
                   [NameId r])))
              \<and> \<not> IsConfigured (fst (ApplyFromConfiguration e r)))
         \<and> (map_of rc ''user_name'' = None \<longrightarrow> \<not> HasUserName (fst (ApplyFromConfiguration e r)))
         \<and> (map_of rc ''password'' = None \<longrightarrow> \<not> HasPassword (fst (ApplyFromConfiguration e r)))"
proof -
  obtain n err where g: "GetInt e rc ''database_index'' = (n, err)"
    by (cases "GetInt e rc ''database_index''") auto
  note f = ApplyFromConfiguration_fields [OF assms g]
  show ?thesis
    by (cases err) (simp_all add: f g as_string_def)
qed

theorem ApplyFromConfiguration_optional_fields_witness:
  "snd (snd (ApplyFromConfiguration (example_env [(''a'', AJSON example_record)])
               (example_handle False False))) = Returned None
   \<and> IsConfigured (fst (ApplyFromConfiguration (example_env [(''a'', AJSON example_record)])
                          (example_handle False False)))
   \<and> \<not> HasUserName (fst (ApplyFromConfiguration (example_env [(''a'', AJSON example_record)])
                            (example_handle False False)))
   \<and> \<not> HasPassword (fst (ApplyFromConfiguration (example_env [(''a'', AJSON example_record)])
                            (example_handle False False)))"
proof -
  have dat: "Data \<lparr>Data = Some [(''a'', AJSON example_record)]\<rparr>
      = Some [(''a'', AJSON example_record)]"
    by simp
  have rcd: "as_JSON (map_of [(''a'', AJSON example_record)] (NameId (example_handle False False)))
      = Some example_record"
    by (simp add: as_JSON_def example_handle_fresh)
  have adr: "map_of example_record ''address'' = Some (AString ''localhost:6379'')"
    by (simp add: example_record_def)
  have idx: "snd (GetInt (example_env [(''a'', AJSON example_record)]) example_record
                    ''database_index'') = None"
    by (simp add: example_env_def GetInt_strict_def example_record_def)
  have usr: "map_of example_record ''user_name'' = None"
    and pwd: "map_of example_record ''password'' = None"
    by (simp_all add: example_record_def)
  from ApplyFromConfiguration_optional_fields
    [OF example_handle_fresh(1) example_env_redis dat rcd adr] idx usr pwd
  show ?thesis
    by (simp add: as_string_def)
qed

text \<open>
  The claim as stated fails where \<^verbatim>\<open>json2.GetInt\<close> reports a missing key as an error, as
  the message at its call site says it does: with a record that holds the address only,
  the call returns an error and leaves the handle unconfigured.
\<close>

theorem ApplyFromConfiguration_database_index_counterexample:
  "map_of [(''address'', AString ''localhost:6379'')] ''address''
     = Some (AString ''localhost:6379'')
   \<and> ApplyFromConfiguration
       (example_env [(''a'', AJSON [(''address'', AString ''localhost:6379'')])])
       (example_handle False False)
     = ((example_handle False False)\<lparr>Address := ''localhost:6379''\<rparr>,
        [Log LevelInfo ''Configuring to Redis %s... start'' [ArgS ''a''],
         ReadSection ''redis'', ReadRecord ''a'', ReadField ''address'',
         ReadField ''user_name'', ReadField ''password'', ReadField ''database_index'',
         Log LevelWarn
           ''configuration is unusable, mandatory address field in Redis %s configuration not exist''
           [ArgS ''a'']],
        Returned (Some (Errorf
          ''configuration is unusable, mandatory address field in Redis %s configuration not exist''
          [''a''])))"
  by (simp add: ApplyFromConfiguration_def example_env_def example_handle_def NewRedis_def
      Let_def as_JSON_def as_string_def return_created_def Log_WarnAndCreateErrorf_def
      Log_Infof_def GetInt_strict_def)

subsection \<open>Connecting at start\<close>

lemma ConnectAllAtStart_loop_success:
  "ConnectAllAtStart_loop e rs = (rs', t, Returned None) \<Longrightarrow>
     rs' = map (\<lambda>(k, v). (k, fst (redis_at_start e v))) rs
     \<and> t = concat (map (\<lambda>(k, v). snd (redis_at_start e v)) rs)"
proof (induction rs arbitrary: rs' t)
  case Nil
  then show ?case by simp
next
  case (Cons p rs)
  obtain k v where p: "p = (k, v)" by (cases p)
  obtain rest' t' res where rest: "ConnectAllAtStart_loop e rs = (rest', t', res)"
    by (cases "ConnectAllAtStart_loop e rs") auto
  show ?case
  proof (cases "IsConnectAtStart v")
    case False
    with Cons.prems p rest have "res = Returned None" "rs' = (k, v) # rest'" "t = t'"
      by auto
    with Cons.IH [of rest' t'] rest False p show ?thesis
      by (simp add: redis_at_start_def)
  next
    case True
    obtain v' tc x where c: "Connect e v = (v', tc, x)"
      by (cases "Connect e v") auto
    from Cons.prems p True c rest
    have "x = Returned None \<and> res = Returned None \<and> rs' = (k, v') # rest' \<and> t = tc @ t'"
      by (cases x; cases "case x of Returned y \<Rightarrow> y | _ \<Rightarrow> None") (auto split: option.splits)
    with Cons.IH [of rest' t'] rest True p c show ?thesis
      by (simp add: redis_at_start_def)
  qed
qed

lemma ConnectAllAtStart_loop_unflagged:
  "ConnectAllAtStart_loop e rs = (rs', t, res) \<Longrightarrow> (k, v) \<in> set rs \<Longrightarrow>
     \<not> IsConnectAtStart v \<Longrightarrow> (k, v) \<in> set rs'"
proof (induction rs arbitrary: rs' t res)
  case Nil
  then show ?case by simp
next
  case (Cons p rs)
  obtain k0 v0 where p: "p = (k0, v0)" by (cases p)
  obtain rest' t' res' where rest: "ConnectAllAtStart_loop e rs = (rest', t', res')"
    by (cases "ConnectAllAtStart_loop e rs") auto
  have in_rest: "(k, v) \<in> set rs \<Longrightarrow> (k, v) \<in> set rest'"
    using Cons.IH [OF rest _ Cons.prems(3)] by simp
  show ?case
  proof (cases "IsConnectAtStart v0")
    case False
    with Cons.prems p rest in_rest show ?thesis by auto
  next
    case True
    obtain v' tc x where c: "Connect e v0 = (v', tc, x)"
      by (cases "Connect e v0") auto
    have ne: "(k, v) \<noteq> (k0, v0)"
      using True Cons.prems(3) by auto
    with Cons.prems(2) p have mem: "(k, v) \<in> set rs" by auto
    show ?thesis
    proof (cases x)
      case (Returned y)
      with Cons.prems(1) p True c rest mem in_rest show ?thesis
        by (cases y) auto
    next
      case Terminated
      with Cons.prems(1) p True c mem show ?thesis by auto
    next
      case Panicked
      with Cons.prems(1) p True c mem show ?thesis by auto
    qed
  qed
qed

lemma ConnectAllAtStart_db_loop_success:
  "ConnectAllAtStart_db_loop ops n dm = (dm', t, Returned None) \<Longrightarrow>
     dm' = map (\<lambda>(k, v). (k, fst (db_at_start ops n v))) dm
     \<and> t = concat (map (\<lambda>(k, v). snd (db_at_start ops n v)) dm)"
proof (induction dm arbitrary: dm' t)
  case Nil
  then show ?case by simp
next
  case (Cons p dm)
  obtain k v where p: "p = (k, v)" by (cases p)
  obtain rest' t' res where rest: "ConnectAllAtStart_db_loop ops n dm = (rest', t', res)"
    by (cases "ConnectAllAtStart_db_loop ops n dm") auto
  obtain v1 t1 x where a: "db_ApplyFromConfiguration ops n v = (v1, t1, x)"
    by (cases "db_ApplyFromConfiguration ops n v") auto
  have x: "x = Returned None"
    using Cons.prems p a
    by (cases x; cases "case x of Returned y \<Rightarrow> y | _ \<Rightarrow> None")
       (auto simp add: return_created_def Log_ErrorAndCreateErrorf_def split: option.splits)
  show ?case
  proof (cases "IsConnectAtStart v1")
    case False
    with Cons.prems p rest a x have "res = Returned None" "dm' = (k, v1) # rest'" "t = t1 @ t'"
      by auto
    with Cons.IH [of rest' t'] rest False p a show ?thesis
      by (simp add: db_at_start_def)
  next
    case True
    obtain v2 t2 y where c: "db_Connect ops v1 = (v2, t2, y)"
      by (cases "db_Connect ops v1") auto
    from Cons.prems p True a x c rest
    have "y = Returned None \<and> res = Returned None \<and> dm' = (k, v2) # rest' \<and> t = t1 @ t2 @ t'"
      by (cases y; cases "case y of Returned z \<Rightarrow> z | _ \<Rightarrow> None") (auto split: option.splits)
    with Cons.IH [of rest' t'] rest True p a c show ?thesis
      by (simp add: db_at_start_def)
  qed
qed

lemma example_registry_eq:
  "example_registry = [(''a'', example_handle True False),
                       (''b'', (example_handle False False)\<lparr>NameId := ''b''\<rparr>)]"
  by (simp add: example_registry_def example_handle_def NewRedis_def Let_def)

lemma example_databases_eq:
  "example_databases =
     [(''a'', \<lparr>NameId = ''a'', IsConfigured = False, IsConnectAtStart = True,
              MustConnected = False, Connected = False\<rparr>),
      (''b'', \<lparr>NameId = ''b'', IsConfigured = False, IsConnectAtStart = False,
              MustConnected = False, Connected = False\<rparr>)]"
  by (simp add: example_databases_def NewDatabase_def Let_def)

lemma example_Connect:
  "Connect (example_env example_section) (example_handle True False) =
     (example_connected,
      [Log LevelInfo ''Configuring to Redis %s... start'' [ArgS ''a''],
       ReadSection ''redis'', ReadRecord ''a'', ReadField ''address'',
       ReadField ''user_name'', ReadField ''password'', ReadField ''database_index'',
       Log LevelInfo ''Configuring to Redis %s... done'' [ArgS ''a''],
       Log LevelInfo ''Connecting to Redis %s at %s/%d... start''
         [ArgS ''a'', ArgS ''localhost:6379'', ArgI 0],
       NewRing \<lparr>opt_Addrs = [(''shard1'', ''localhost:6379'')], opt_DB = 0,
                opt_Username = '''', opt_Password = ''''\<rparr>,
       CmdPing,
       Log LevelInfo ''Connecting to Redis %s at %s/%d... done CONNECTED''
         [ArgS ''a'', ArgS ''localhost:6379'', ArgI 0]],
      Returned None)"
  by (simp add: Connect_def ApplyFromConfiguration_def example_env_def example_section_def
      example_record_def example_handle_def example_connected_def NewRedis_def Let_def
      as_JSON_def as_string_def GetInt_strict_def Log_Infof_def)

text \<open>
  C2, as amended. On a non-empty registry, when \<^verbatim>\<open>ConnectAllAtStart\<close> returns no error:
  in the database family every registered handle has had \<^verbatim>\<open>ApplyFromConfiguration\<close>
  called on it, whatever its flag, and then \<^verbatim>\<open>Connect\<close> if and only if its flag
  \<open>IsConnectAtStart\<close> is set (the handles and the effects are those of \<open>db_at_start\<close>,
  handle by handle, between the two messages of the manager); in the Redis family the
  manager calls \<^verbatim>\<open>Connect\<close> on the handles whose flag is set and nothing on the others
  (it never calls \<^verbatim>\<open>ApplyFromConfiguration\<close> itself; \<^verbatim>\<open>Connect\<close> does). However the
  Redis call ends, a handle whose flag is not set is in the registry as it was.
\<close>

theorem ConnectAllAtStart_by_family:
  "(ConnectAllAtStart_db ops n dm = (dm', t, Returned None) \<and> dm \<noteq> [] \<longrightarrow>
      dm' = map (\<lambda>(k, v). (k, fst (db_at_start ops n v))) dm
      \<and> t = Log_Info ''Connecting to Database Manager... start''
             @ concat (map (\<lambda>(k, v). snd (db_at_start ops n v)) dm)
             @ Log_Info ''Connecting to Database Manager... done'')
   \<and> (ConnectAllAtStart e rs = (rs', t', Returned None) \<and> rs \<noteq> [] \<longrightarrow>
      rs' = map (\<lambda>(k, v). (k, fst (redis_at_start e v))) rs
      \<and> t' = Log_Info ''Connecting to Redis Manager... start''
              @ concat (map (\<lambda>(k, v). snd (redis_at_start e v)) rs)
              @ Log_Info ''Connecting to Redis Manager... done'')
   \<and> (\<forall>(k, v) \<in> set rs. \<not> IsConnectAtStart v \<longrightarrow> (k, v) \<in> set (fst (ConnectAllAtStart e rs)))"
proof (intro conjI impI)
  assume h: "ConnectAllAtStart_db ops n dm = (dm', t, Returned None) \<and> dm \<noteq> []"
  obtain d1 t1 x where l: "ConnectAllAtStart_db_loop ops n dm = (d1, t1, x)"
    by (cases "ConnectAllAtStart_db_loop ops n dm") auto
  from h l have "x = Returned None \<and> dm' = d1
      \<and> t = Log_Info ''Connecting to Database Manager... start'' @ t1
             @ Log_Info ''Connecting to Database Manager... done''"
    by (cases x; cases "case x of Returned y \<Rightarrow> y | _ \<Rightarrow> None")
       (auto simp add: ConnectAllAtStart_db_def split: option.splits)
  with ConnectAllAtStart_db_loop_success [of ops n dm d1 t1] l
  show "dm' = map (\<lambda>(k, v). (k, fst (db_at_start ops n v))) dm"
    and "t = Log_Info ''Connecting to Database Manager... start''
             @ concat (map (\<lambda>(k, v). snd (db_at_start ops n v)) dm)
             @ Log_Info ''Connecting to Database Manager... done''"
    by simp_all
next
  assume h: "ConnectAllAtStart e rs = (rs', t', Returned None) \<and> rs \<noteq> []"
  obtain r1 t1 x where l: "ConnectAllAtStart_loop e rs = (r1, t1, x)"
    by (cases "ConnectAllAtStart_loop e rs") auto
  from h l have "x = Returned None \<and> rs' = r1
      \<and> t' = Log_Info ''Connecting to Redis Manager... start'' @ t1
              @ Log_Info ''Connecting to Redis Manager... done''"
    by (cases x; cases "case x of Returned y \<Rightarrow> y | _ \<Rightarrow> None")
       (auto simp add: ConnectAllAtStart_def split: option.splits)
  with ConnectAllAtStart_loop_success [of e rs r1 t1] l
  show "rs' = map (\<lambda>(k, v). (k, fst (redis_at_start e v))) rs"
    and "t' = Log_Info ''Connecting to Redis Manager... start''
              @ concat (map (\<lambda>(k, v). snd (redis_at_start e v)) rs)
              @ Log_Info ''Connecting to Redis Manager... done''"
    by simp_all
next
  show "\<forall>(k, v) \<in> set rs. \<not> IsConnectAtStart v \<longrightarrow> (k, v) \<in> set (fst (ConnectAllAtStart e rs))"
  proof (clarify)
    fix k v
    assume m: "(k, v) \<in> set rs" and f: "\<not> IsConnectAtStart v"
    obtain r1 t1 x where l: "ConnectAllAtStart_loop e rs = (r1, t1, x)"
      by (cases "ConnectAllAtStart_loop e rs") auto
    from ConnectAllAtStart_loop_unflagged [OF l m f] have "(k, v) \<in> set r1" .
    moreover have "fst (ConnectAllAtStart e rs) = r1"
      using l m
      by (cases x; cases "case x of Returned y \<Rightarrow> y | _ \<Rightarrow> None")
         (auto simp add: ConnectAllAtStart_def split: option.splits)
    ultimately show "(k, v) \<in> set (fst (ConnectAllAtStart e rs))"
      by simp
  qed
qed

theorem ConnectAllAtStart_by_family_witness:
  "map (\<lambda>(k, v). (k, IsConfigured v, Connected v))
       (fst (ConnectAllAtStart_db example_methods ''database'' example_databases))
     = [(''a'', True, True), (''b'', True, False)]
   \<and> map (\<lambda>(k, v). (k, IsConfigured v, Connected v))
         (fst (ConnectAllAtStart (example_env example_section) example_registry))
     = [(''a'', True, True), (''b'', False, False)]
   \<and> (''b'', (example_handle False False)\<lparr>NameId := ''b''\<rparr>)
       \<in> set (fst (ConnectAllAtStart (example_env example_section) example_registry))"
proof -
  let ?e = "example_env example_section"
  obtain dm' t where db: "ConnectAllAtStart_db example_methods ''database'' example_databases
      = (dm', t, Returned None)"
    by (simp add: ConnectAllAtStart_db_def example_databases_eq example_methods_def
        return_created_def)
  obtain rs' t' where rd: "ConnectAllAtStart ?e example_registry = (rs', t', Returned None)"
    by (simp add: ConnectAllAtStart_def example_registry_eq example_Connect
        example_handle_fresh)
  have ne: "example_databases \<noteq> []" "example_registry \<noteq> []"
    by (simp_all add: example_databases_eq example_registry_eq)
  note T = ConnectAllAtStart_by_family
    [where ops = example_methods and n = "''database''" and dm = example_databases
       and dm' = dm' and t = t and e = ?e and rs = example_registry and rs' = rs' and t' = t']
  from T db ne have 1: "dm' = map (\<lambda>(k, v). (k, fst (db_at_start example_methods ''database'' v)))
      example_databases"
    by blast
  from T rd ne have 2: "rs' = map (\<lambda>(k, v). (k, fst (redis_at_start ?e v))) example_registry"
    by blast
  from T have 3: "\<forall>(k, v) \<in> set example_registry. \<not> IsConnectAtStart v
      \<longrightarrow> (k, v) \<in> set (fst (ConnectAllAtStart ?e example_registry))"
    by blast
  have b: "(''b'', (example_handle False False)\<lparr>NameId := ''b''\<rparr>) \<in> set example_registry"
    by (simp add: example_registry_eq)
  from 3 b have 4: "(''b'', (example_handle False False)\<lparr>NameId := ''b''\<rparr>)
      \<in> set (fst (ConnectAllAtStart ?e example_registry))"
    by (auto simp add: example_handle_fresh)
  have 5: "map (\<lambda>(k, v). (k, IsConfigured v, Connected v)) dm'
      = [(''a'', True, True), (''b'', True, False)]"
    unfolding 1 by (simp add: example_databases_eq db_at_start_def example_methods_def)
  have 6: "map (\<lambda>(k, v). (k, IsConfigured v, Connected v)) rs'
      = [(''a'', True, True), (''b'', False, False)]"
    unfolding 2
    by (simp add: example_registry_eq redis_at_start_def example_Connect example_handle_fresh
        example_connected_fields)
  from 4 5 6 db rd show ?thesis
    by simp
qed

text \<open>
  The claim as stated fails in the Redis family: a registered handle that is not
  configured and not to be connected at start, whose configuration is there to apply
  (\<^verbatim>\<open>ApplyFromConfiguration\<close> would configure it), comes out of \<^verbatim>\<open>ConnectAllAtStart\<close>
  unchanged and unconfigured, and the only effects are the two messages of the manager.
\<close>

theorem ConnectAllAtStart_redis_counterexample:
  "\<not> IsConnectAtStart (example_handle False False)
   \<and> \<not> IsConfigured (example_handle False False)
   \<and> IsConfigured (fst (ApplyFromConfiguration (example_env example_section)
                          (example_handle False False)))
   \<and> ConnectAllAtStart (example_env example_section) [(''a'', example_handle False False)]
     = ([(''a'', example_handle False False)],
        [Log LevelInfo ''Connecting to Redis Manager... start'' [],
         Log LevelInfo ''Connecting to Redis Manager... done'' []],
        Returned None)"
  by (simp add: ConnectAllAtStart_def example_handle_fresh Log_Info_def
      ApplyFromConfiguration_def example_env_def example_section_def example_record_def
      Let_def as_JSON_def as_string_def GetInt_strict_def)

end
